theory Spec2Isabelle
  imports Complex_Main
begin

section \<open>Catalog snapshot\<close>

text \<open>
  The two combo configurators (\<open>ComboModal\<close>, in a single-ice-field variant A and a
  four-slot variant B) and the special-drinks dialog read products and categories from
  the shared schema. Only the fields the components read are kept. Identifiers and names
  are strings; a non-ASCII letter is written as its UTF-8 bytes. \<open>salePrice\<close> holds the
  decimal value of the column as an exact rational. \<open>calculateTotal\<close> computes on these
  values without rounding; \<open>calculateTotal_fl\<close> repeats it with the rounding of
  JavaScript's numbers as a parameter.
\<close>

record product =
  p_id :: string
  p_name :: string
  salePrice :: rat
  categoryId :: string
  p_isActive :: bool
  stock :: int
  comboEligible :: bool
  isPrepared :: bool

record category =
  c_id :: string
  c_name :: string
  c_isActive :: bool

section \<open>Strings\<close>

text \<open>
  \<open>String.prototype.includes\<close>: does \<open>sub\<close> occur in \<open>s\<close> as a contiguous block.
  \<open>String.prototype.toLowerCase\<close> belongs to the host, not to the repository: every
  definition that calls it takes it as the parameter \<open>lc\<close>, and the theorems hold for
  every such function. \<open>asciiLower\<close> is what it computes on ASCII text and is used to
  evaluate the definitions on concrete ASCII names.
\<close>

fun str_includes :: "string \<Rightarrow> string \<Rightarrow> bool" where
  "str_includes [] sub = (sub = [])"
| "str_includes (c # cs) sub = (take (length sub) (c # cs) = sub \<or> str_includes cs sub)"

definition lowerChar :: "char \<Rightarrow> char" where
  "lowerChar c =
     (case map_of (zip ''ABCDEFGHIJKLMNOPQRSTUVWXYZ'' ''abcdefghijklmnopqrstuvwxyz'') c of
        Some d \<Rightarrow> d
      | None \<Rightarrow> c)"

definition asciiLower :: "string \<Rightarrow> string" where
  "asciiLower s = map lowerChar s"

section \<open>Eligibility classifier\<close>

subsection \<open>Spirits\<close>

definition destiladoKeywords :: "string list" where
  "destiladoKeywords =
     [''gin'', ''whisky'', ''whiskey'', ''cacha'' @ [CHR 0xC3, CHR 0xA7] @ ''a'', ''cachaca'',
      ''vodka'', ''sake'', ''saque'', ''rum'']"

definition destiladosCategoryIds :: "(string \<Rightarrow> string) \<Rightarrow> category list \<Rightarrow> string list" where
  "destiladosCategoryIds lc categories =
     map c_id
       (filter (\<lambda>c. list_ex (\<lambda>keyword. str_includes (lc (c_name c)) keyword) destiladoKeywords)
          categories)"

definition destilados :: "(string \<Rightarrow> string) \<Rightarrow> category list \<Rightarrow> product list \<Rightarrow> product list" where
  "destilados lc categories products =
     filter (\<lambda>p. comboEligible p \<and> p_isActive p \<and> stock p > 0 \<and>
                  categoryId p \<in> set (destiladosCategoryIds lc categories))
       products"

definition COMBO_CATEGORIES :: "string list" where
  "COMBO_CATEGORIES = [''Gin'', ''Vodka'', ''Cacha'' @ [CHR 0xC3, CHR 0xA7] @ ''a'', ''Whisky'']"

definition ICE_COUNT :: nat where
  "ICE_COUNT = 4"

definition CAN_COUNT :: nat where
  "CAN_COUNT = 4"

definition comboCategories :: "(string \<Rightarrow> string) \<Rightarrow> category list \<Rightarrow> category list" where
  "comboCategories lc categories =
     filter (\<lambda>c. list_ex (\<lambda>name. lc (c_name c) = lc name) COMBO_CATEGORIES) categories"

text \<open>
  \<open>destiladosByCategory\<close> of variant B. \<open>!selectedCategory\<close> holds for \<open>null\<close> and for
  the empty string; \<open>categories.find\<close> yields the first category with the chosen
  identifier, or \<open>undefined\<close>.
\<close>

definition destiladosByCategory ::
    "category list \<Rightarrow> product list \<Rightarrow> string option \<Rightarrow> product list" where
  "destiladosByCategory categories products selectedCategory =
     (case selectedCategory of
        None \<Rightarrow> []
      | Some sel \<Rightarrow>
          if sel = [] then []
          else (case List.find (\<lambda>c. c_id c = sel) categories of
                  None \<Rightarrow> []
                | Some category \<Rightarrow>
                    filter (\<lambda>p. comboEligible p \<and> p_isActive p \<and> stock p > 0 \<and>
                                 categoryId p = c_id category)
                      products))"

subsection \<open>Energy drinks\<close>

definition energeticoKeywords :: "string list" where
  "energeticoKeywords =
     [''energetico'', ''energ'' @ [CHR 0xC3, CHR 0xA9] @ ''tico'', ''redbull'', ''red bull'',
      ''monster'', ''tnt'', ''burn'', ''fusion'', ''energy'']"

definition isEnergetico :: "(string \<Rightarrow> string) \<Rightarrow> string \<Rightarrow> bool" where
  "isEnergetico lc name =
     (let lowerName = lc name
      in list_ex (\<lambda>keyword. str_includes lowerName keyword) energeticoKeywords)"

text \<open>The large-bottle list is the same in both variants.\<close>

definition energeticos2L :: "(string \<Rightarrow> string) \<Rightarrow> product list \<Rightarrow> product list" where
  "energeticos2L lc products =
     filter (\<lambda>p. comboEligible p \<and> p_isActive p \<and> stock p > 0 \<and>
                  isEnergetico lc (p_name p) \<and> str_includes (lc (p_name p)) ''2l'')
       products"

definition energeticosCans_A :: "(string \<Rightarrow> string) \<Rightarrow> product list \<Rightarrow> product list" where
  "energeticosCans_A lc products =
     filter (\<lambda>p. comboEligible p \<and> p_isActive p \<and> stock p \<ge> 5 \<and>
                  isEnergetico lc (p_name p) \<and> \<not> str_includes (lc (p_name p)) ''2l'')
       products"

definition energeticosCans_B :: "(string \<Rightarrow> string) \<Rightarrow> product list \<Rightarrow> product list" where
  "energeticosCans_B lc products =
     filter (\<lambda>p. comboEligible p \<and> p_isActive p \<and> stock p \<ge> int CAN_COUNT \<and>
                  isEnergetico lc (p_name p) \<and> \<not> str_includes (lc (p_name p)) ''2l'')
       products"

subsection \<open>Ice\<close>

definition isLargeIceBag :: "(string \<Rightarrow> string) \<Rightarrow> string \<Rightarrow> bool" where
  "isLargeIceBag lc name =
     (let lowerName = lc name
      in str_includes lowerName ''kg'' \<or> str_includes lowerName ''saco'' \<or>
         str_includes lowerName ''grande'')"

definition gelos :: "(string \<Rightarrow> string) \<Rightarrow> product list \<Rightarrow> product list" where
  "gelos lc products =
     filter (\<lambda>p. comboEligible p \<and> p_isActive p \<and> str_includes (lc (p_name p)) ''gelo'' \<and>
                  (if isLargeIceBag lc (p_name p) then stock p \<ge> 1 else stock p \<ge> 5))
       products"

definition gelosAvailable :: "(string \<Rightarrow> string) \<Rightarrow> product list \<Rightarrow> product list" where
  "gelosAvailable lc products =
     filter (\<lambda>p. comboEligible p \<and> p_isActive p \<and> stock p \<ge> 1 \<and>
                  (str_includes (lc (p_name p)) ''gelo'' \<and>
                   \<not> str_includes (lc (p_name p)) ''kg'' \<and>
                   \<not> str_includes (lc (p_name p)) ''saco'' \<and>
                   \<not> str_includes (lc (p_name p)) ''triturado'' \<and>
                   \<not> str_includes (lc (p_name p)) ''premium''))
       products"

text \<open>
  \<open>getGeloQuantity\<close> of variant A: \<open>!gelo\<close> holds for \<open>null\<close> only, a product being an
  object.
\<close>

definition getGeloQuantity :: "(string \<Rightarrow> string) \<Rightarrow> product option \<Rightarrow> nat" where
  "getGeloQuantity lc gelo =
     (case gelo of
        None \<Rightarrow> 5
      | Some g \<Rightarrow> if isLargeIceBag lc (p_name g) then 1 else 5)"

section \<open>Collaborators\<close>

text \<open>
  \<open>toast\<close>, the cart's \<open>addCombo\<close> and \<open>addItem\<close>, the dialog's \<open>onOpenChange\<close>
  and \<open>Date.now\<close> are outside the components. A call to one of them is recorded in the
  order it is made: the list of toasts shown, the list of combos handed to the cart, the
  list of arguments passed to \<open>onOpenChange\<close>. The clock's reading is an argument;
  a combo's identifier is \<open>combo-\<close> followed by that reading, and the record keeps the
  reading.
  \<open>destructive\<close> says whether the toast carries \<open>variant: 'destructive'\<close>.
\<close>

record toast =
  title :: string
  description :: string
  destructive :: bool

record totals =
  original :: rat
  discounted :: rat

section \<open>Variant A: one ice field\<close>

datatype EnergeticoOption_A = Opt_2L_A | Opt_5cans

record selection_A =
  selectedDestilado_A :: "product option"
  selectedEnergetico_A :: "product option"
  energeticoOption_A :: EnergeticoOption_A
  selectedGelo_A :: "product option"

record combo_A =
  id_A :: int
  destilado_A :: product
  energetico_A :: product
  energeticoQuantity_rec_A :: nat
  gelo_A :: product
  geloQuantity_rec_A :: nat
  discountPercent_A :: nat
  originalTotal_A :: rat
  discountedTotal_A :: rat

record modal_A =
  sel_A :: selection_A
  addCombo_A :: "combo_A list"
  toast_A :: "toast list"
  onOpenChange_A :: "bool list"

text \<open>The two pack buttons: \<open>setEnergeticoOption(opt); setSelectedEnergetico(null)\<close>.\<close>

definition energeticoButton_A :: "EnergeticoOption_A \<Rightarrow> selection_A \<Rightarrow> selection_A" where
  "energeticoButton_A opt s = s\<lparr>energeticoOption_A := opt, selectedEnergetico_A := None\<rparr>"

definition energeticoQuantity_A :: "selection_A \<Rightarrow> nat" where
  "energeticoQuantity_A s = (if energeticoOption_A s = Opt_2L_A then 1 else 5)"

definition geloQuantity_A :: "(string \<Rightarrow> string) \<Rightarrow> selection_A \<Rightarrow> nat" where
  "geloQuantity_A lc s = getGeloQuantity lc (selectedGelo_A s)"

definition calculateTotal_A :: "(string \<Rightarrow> string) \<Rightarrow> selection_A \<Rightarrow> totals" where
  "calculateTotal_A lc s =
     (case (selectedDestilado_A s, selectedEnergetico_A s, selectedGelo_A s) of
        (Some d, Some e, Some g) \<Rightarrow>
          (let destiladoPrice = salePrice d;
               energeticoPrice = salePrice e * of_nat (energeticoQuantity_A s);
               geloPrice = salePrice g * of_nat (geloQuantity_A lc s);
               original = destiladoPrice + energeticoPrice + geloPrice;
               discounted = original * (95 / 100)
           in \<lparr>original = original, discounted = discounted\<rparr>)
      | _ \<Rightarrow> \<lparr>original = 0, discounted = 0\<rparr>)"

text \<open>The confirm button is disabled unless all three fields are set.\<close>

definition isComplete_A :: "selection_A \<Rightarrow> bool" where
  "isComplete_A s \<longleftrightarrow>
     \<not> (selectedDestilado_A s = None \<or> selectedEnergetico_A s = None \<or> selectedGelo_A s = None)"

definition resetSelections_A :: "selection_A \<Rightarrow> selection_A" where
  "resetSelections_A s =
     s\<lparr>selectedDestilado_A := None, selectedEnergetico_A := None, selectedGelo_A := None,
       energeticoOption_A := Opt_2L_A\<rparr>"

definition rejection_A :: toast where
  "rejection_A =
     \<lparr>title = ''Selecione todos os itens'',
      description = ''Escolha um destilado, um energetico e o gelo para montar seu combo.'',
      destructive = True\<rparr>"

definition comboAdded :: toast where
  "comboAdded =
     \<lparr>title = ''Combo adicionado!'',
      description = ''Combo com 5% de desconto foi adicionado ao carrinho.'',
      destructive = False\<rparr>"

definition handleAddCombo_A :: "(string \<Rightarrow> string) \<Rightarrow> int \<Rightarrow> modal_A \<Rightarrow> modal_A" where
  "handleAddCombo_A lc now m =
     (let s = sel_A m
      in case (selectedDestilado_A s, selectedEnergetico_A s, selectedGelo_A s) of
           (Some d, Some e, Some g) \<Rightarrow>
             m\<lparr>addCombo_A := addCombo_A m @
                  [\<lparr>id_A = now, destilado_A = d, energetico_A = e,
                    energeticoQuantity_rec_A = energeticoQuantity_A s,
                    gelo_A = g, geloQuantity_rec_A = geloQuantity_A lc s,
                    discountPercent_A = 5,
                    originalTotal_A = original (calculateTotal_A lc s),
                    discountedTotal_A = discounted (calculateTotal_A lc s)\<rparr>],
               toast_A := toast_A m @ [comboAdded],
               sel_A := resetSelections_A s,
               onOpenChange_A := onOpenChange_A m @ [False]\<rparr>
         | _ \<Rightarrow> m\<lparr>toast_A := toast_A m @ [rejection_A]\<rparr>)"

section \<open>Variant B: four ice slots\<close>

datatype EnergeticoOption_B = Opt_2L_B | Opt_4cans

record selection_B =
  selectedCategory :: "string option"
  selectedDestilado_B :: "product option"
  selectedGelos :: "product option list"
  selectedEnergetico_B :: "product option"
  energeticoOption_B :: EnergeticoOption_B

record combo_B =
  id_B :: int
  destilado_B :: product
  energetico_B :: product
  energeticoQuantity_rec_B :: nat
  gelos_B :: "(product \<times> nat) list"
  discountPercent_B :: nat
  originalTotal_B :: rat
  discountedTotal_B :: rat

record modal_B =
  sel_B :: selection_B
  addCombo_B :: "combo_B list"
  toast_B :: "toast list"
  onOpenChange_B :: "bool list"

text \<open>A category button: \<open>setSelectedCategory(cat.id); setSelectedDestilado(null)\<close>.\<close>

definition categoryButton :: "category \<Rightarrow> selection_B \<Rightarrow> selection_B" where
  "categoryButton cat s = s\<lparr>selectedCategory := Some (c_id cat), selectedDestilado_B := None\<rparr>"

definition energeticoButton_B :: "EnergeticoOption_B \<Rightarrow> selection_B \<Rightarrow> selection_B" where
  "energeticoButton_B opt s = s\<lparr>energeticoOption_B := opt, selectedEnergetico_B := None\<rparr>"

text \<open>
  The identifiers held by the filled slots other than \<open>slotIndex\<close>, and the products of
  \<open>gelosAvailable\<close> that are not among them.
\<close>

definition getAvailableGelosForSlot ::
    "(string \<Rightarrow> string) \<Rightarrow> product list \<Rightarrow> product option list \<Rightarrow> nat \<Rightarrow> product list" where
  "getAvailableGelosForSlot lc products gs slotIndex =
     (let selectedIds =
            map (\<lambda>(g, idx). p_id (the g))
              (filter (\<lambda>(g, idx). g \<noteq> None \<and> idx \<noteq> slotIndex) (zip gs [0..<length gs]))
      in filter (\<lambda>g. p_id g \<notin> set selectedIds) (gelosAvailable lc products))"

text \<open>
  \<open>newGelos[index] = product\<close> on a copy of the array. The slot buttons pass
  \<open>index < ICE_COUNT\<close>, the length of the array; for a larger index a JavaScript array
  grows, and the positions in between, which hold no product, are empty slots here.
\<close>

definition handleSelectGelo :: "nat \<Rightarrow> product option \<Rightarrow> product option list \<Rightarrow> product option list" where
  "handleSelectGelo index product prev =
     (if index < length prev then prev[index := product]
      else prev @ replicate (index - length prev) None @ [product])"

text \<open>
  The calls the picker makes for slot \<open>index\<close>, \<open>index\<close> running over
  \<open>0, \<dots>, ICE_COUNT - 1\<close>: \<open>handleSelectGelo(index, null)\<close> from the button that
  clears the slot, and \<open>handleSelectGelo(index, product)\<close> from the button of a product
  of \<open>getAvailableGelosForSlot(index)\<close>. \<open>clickGelos\<close> runs a sequence of clicks and is
  \<open>None\<close> when a click is not among these calls.
\<close>

datatype geloClick = Clear nat | Pick nat product

fun offered :: "(string \<Rightarrow> string) \<Rightarrow> product list \<Rightarrow> product option list \<Rightarrow> geloClick \<Rightarrow> bool" where
  "offered lc products gs (Clear index) = (index < ICE_COUNT)"
| "offered lc products gs (Pick index product) =
     (index < ICE_COUNT \<and> product \<in> set (getAvailableGelosForSlot lc products gs index))"

fun onClick_gelo :: "geloClick \<Rightarrow> product option list \<Rightarrow> product option list" where
  "onClick_gelo (Clear index) gs = handleSelectGelo index None gs"
| "onClick_gelo (Pick index product) gs = handleSelectGelo index (Some product) gs"

fun clickGelos ::
    "(string \<Rightarrow> string) \<Rightarrow> product list \<Rightarrow> geloClick list \<Rightarrow> product option list \<Rightarrow>
     product option list option" where
  "clickGelos lc products [] gs = Some gs"
| "clickGelos lc products (c # cs) gs =
     (if offered lc products gs c then clickGelos lc products cs (onClick_gelo c gs) else None)"

definition energeticoQuantity_B :: "selection_B \<Rightarrow> nat" where
  "energeticoQuantity_B s = (if energeticoOption_B s = Opt_2L_B then 1 else CAN_COUNT)"

definition validGelos :: "selection_B \<Rightarrow> product list" where
  "validGelos s = map the (filter (\<lambda>g. g \<noteq> None) (selectedGelos s))"

definition calculateTotal_B :: "selection_B \<Rightarrow> totals" where
  "calculateTotal_B s =
     (case (selectedDestilado_B s, selectedEnergetico_B s) of
        (Some d, Some e) \<Rightarrow>
          if length (validGelos s) \<noteq> ICE_COUNT then \<lparr>original = 0, discounted = 0\<rparr>
          else
            (let destiladoPrice = salePrice d;
                 energeticoPrice = salePrice e * of_nat (energeticoQuantity_B s);
                 geloPrice = foldl (\<lambda>sum g. sum + salePrice g) 0 (validGelos s);
                 original = destiladoPrice + energeticoPrice + geloPrice;
                 discounted = original * (95 / 100)
             in \<lparr>original = original, discounted = discounted\<rparr>)
      | _ \<Rightarrow> \<lparr>original = 0, discounted = 0\<rparr>)"

definition validGelosCount :: "selection_B \<Rightarrow> nat" where
  "validGelosCount s = length (filter (\<lambda>g. g \<noteq> None) (selectedGelos s))"

definition isComplete_B :: "selection_B \<Rightarrow> bool" where
  "isComplete_B s \<longleftrightarrow>
     selectedDestilado_B s \<noteq> None \<and> selectedEnergetico_B s \<noteq> None \<and>
     validGelosCount s = ICE_COUNT"

definition resetSelections_B :: "selection_B \<Rightarrow> selection_B" where
  "resetSelections_B s =
     s\<lparr>selectedCategory := None, selectedDestilado_B := None,
       selectedGelos := replicate ICE_COUNT None, selectedEnergetico_B := None,
       energeticoOption_B := Opt_2L_B\<rparr>"

definition rejection_B :: toast where
  "rejection_B =
     \<lparr>title = ''Selecione todos os itens'',
      description = ''Escolha a bebida, os 4 gelos e o energetico para montar seu combo.'',
      destructive = True\<rparr>"

definition handleAddCombo_B :: "int \<Rightarrow> modal_B \<Rightarrow> modal_B" where
  "handleAddCombo_B now m =
     (let s = sel_B m
      in case (selectedDestilado_B s, selectedEnergetico_B s) of
           (Some d, Some e) \<Rightarrow>
             if length (validGelos s) \<noteq> ICE_COUNT then m\<lparr>toast_B := toast_B m @ [rejection_B]\<rparr>
             else
               m\<lparr>addCombo_B := addCombo_B m @
                    [\<lparr>id_B = now, destilado_B = d, energetico_B = e,
                      energeticoQuantity_rec_B = energeticoQuantity_B s,
                      gelos_B = map (\<lambda>g. (g, 1)) (validGelos s),
                      discountPercent_B = 5,
                      originalTotal_B = original (calculateTotal_B s),
                      discountedTotal_B = discounted (calculateTotal_B s)\<rparr>],
                 toast_B := toast_B m @ [comboAdded],
                 sel_B := resetSelections_B s,
                 onOpenChange_B := onOpenChange_B m @ [False]\<rparr>
         | _ \<Rightarrow> m\<lparr>toast_B := toast_B m @ [rejection_B]\<rparr>)"

section \<open>Special drinks: adding to the cart\<close>

text \<open>
  \<open>handleAddToCart\<close> is the same in both copies of the dialog. \<open>items\<close> is the cart's
  list of lines; the cart's \<open>addItem\<close> is a parameter, applied to the product and the
  current lines.
\<close>

record cartItem =
  productId :: string
  quantity :: int

record drinks =
  items :: "cartItem list"
  toast_D :: "toast list"

definition outOfStock :: "product \<Rightarrow> toast" where
  "outOfStock product =
     \<lparr>title = ''Estoque Insuficiente'',
      description = ''O produto '' @ p_name product @
        '' esta com estoque zerado ou voce ja adicionou a quantidade maxima disponivel.'',
      destructive = True\<rparr>"

definition itemAdded :: "product \<Rightarrow> toast" where
  "itemAdded product =
     \<lparr>title = ''Adicionado ao carrinho'',
      description = p_name product @ '' foi adicionado.'',
      destructive = False\<rparr>"

definition currentQty :: "cartItem list \<Rightarrow> product \<Rightarrow> int" where
  "currentQty its product =
     (case List.find (\<lambda>i. productId i = p_id product) its of
        None \<Rightarrow> 0
      | Some cartItem \<Rightarrow> quantity cartItem)"

definition handleAddToCart ::
    "(product \<Rightarrow> cartItem list \<Rightarrow> cartItem list) \<Rightarrow> product \<Rightarrow> drinks \<Rightarrow> drinks" where
  "handleAddToCart addItem product st =
     (if \<not> isPrepared product \<and>
         (stock product \<le> 0 \<or> currentQty (items st) product \<ge> stock product)
      then st\<lparr>toast_D := toast_D st @ [outOfStock product]\<rparr>
      else st\<lparr>items := addItem product (items st),
              toast_D := toast_D st @ [itemAdded product]\<rparr>)"

section \<open>Pricing in floating point\<close>

text \<open>
  A JavaScript number is a binary64 value, and every arithmetic operation returns the
  exact result rounded to the nearest such value, ties to the even significand.
  \<open>fl64\<close> is that rounding on the rationals: \<open>ilog2\<close> is the exponent of a positive
  rational (\<open>2 powi ilog2 x \<le> x < 2 powi (ilog2 x + 1)\<close>), the unit in the last place is
  \<open>2 powi (e - 52)\<close> with the exponent not below \<open>- 1022\<close> (subnormal values), and the
  quotient by it is rounded to an integer. Magnitudes from \<open>2 powi 1024\<close> on, which
  JavaScript rounds to \<open>Infinity\<close>, are outside this model, and so is the sign of zero.
\<close>

fun bitLength :: "nat \<Rightarrow> nat" where
  "bitLength n = (if n = 0 then 0 else Suc (bitLength (n div 2)))"

declare bitLength.simps [simp del]

definition ilog2 :: "rat \<Rightarrow> int" where
  "ilog2 x =
     (if 1 \<le> x then int (bitLength (nat \<lfloor>x\<rfloor>)) - 1
      else (let k = int (bitLength (nat \<lfloor>1 / x\<rfloor>)) - 1
            in if 2 powi (- k) \<le> x then - k else - k - 1))"

definition roundHalfEven :: "rat \<Rightarrow> int" where
  "roundHalfEven y =
     (let f = \<lfloor>y\<rfloor>; r = y - of_int f
      in if r < 1 / 2 then f else if 1 / 2 < r then f + 1 else if even f then f else f + 1)"

definition fl64 :: "rat \<Rightarrow> rat" where
  "fl64 x =
     (if x = 0 then 0
      else (let e = max (ilog2 \<bar>x\<bar>) (- 1022); ulp = 2 powi (e - 52)
            in of_int (roundHalfEven (x / ulp)) * ulp))"

text \<open>
  \<open>calculateTotal\<close> of both variants with every operation rounded by \<open>fl\<close>:
  \<open>Number(p.salePrice)\<close> is \<open>fl (salePrice p)\<close>, the literal \<open>0.95\<close> is
  \<open>fl (95 / 100)\<close>, a sum of three terms is evaluated from the left, and a quantity is a
  small integer. With \<open>fl\<close> the identity this is \<open>calculateTotal\<close>.
\<close>

definition calculateTotal_fl_A ::
    "(rat \<Rightarrow> rat) \<Rightarrow> (string \<Rightarrow> string) \<Rightarrow> selection_A \<Rightarrow> totals" where
  "calculateTotal_fl_A fl lc s =
     (case (selectedDestilado_A s, selectedEnergetico_A s, selectedGelo_A s) of
        (Some d, Some e, Some g) \<Rightarrow>
          (let destiladoPrice = fl (salePrice d);
               energeticoPrice = fl (fl (salePrice e) * of_nat (energeticoQuantity_A s));
               geloPrice = fl (fl (salePrice g) * of_nat (geloQuantity_A lc s));
               original = fl (fl (destiladoPrice + energeticoPrice) + geloPrice);
               discounted = fl (original * fl (95 / 100))
           in \<lparr>original = original, discounted = discounted\<rparr>)
      | _ \<Rightarrow> \<lparr>original = 0, discounted = 0\<rparr>)"

definition calculateTotal_fl_B :: "(rat \<Rightarrow> rat) \<Rightarrow> selection_B \<Rightarrow> totals" where
  "calculateTotal_fl_B fl s =
     (case (selectedDestilado_B s, selectedEnergetico_B s) of
        (Some d, Some e) \<Rightarrow>
          if length (validGelos s) \<noteq> ICE_COUNT then \<lparr>original = 0, discounted = 0\<rparr>
          else
            (let destiladoPrice = fl (salePrice d);
                 energeticoPrice = fl (fl (salePrice e) * of_nat (energeticoQuantity_B s));
                 geloPrice = foldl (\<lambda>sum g. fl (sum + fl (salePrice g))) 0 (validGelos s);
                 original = fl (fl (destiladoPrice + energeticoPrice) + geloPrice);
                 discounted = fl (original * fl (95 / 100))
             in \<lparr>original = original, discounted = discounted\<rparr>)
      | _ \<Rightarrow> \<lparr>original = 0, discounted = 0\<rparr>)"

section \<open>The ice-slot invariant\<close>

text \<open>No two filled slots hold products with the same identifier.\<close>

definition noDuplicateIce :: "product option list \<Rightarrow> bool" where
  "noDuplicateIce gs \<longleftrightarrow>
     (\<forall>i<length gs. \<forall>j<length gs. i \<noteq> j \<longrightarrow> gs ! i \<noteq> None \<longrightarrow> gs ! j \<noteq> None \<longrightarrow>
        p_id (the (gs ! i)) \<noteq> p_id (the (gs ! j)))"

section \<open>A sample catalog\<close>

text \<open>
  A small snapshot with ASCII names, on which the definitions are evaluated with
  \<open>asciiLower\<close> for \<open>toLowerCase\<close>.
\<close>

definition ex_cat_gin :: category where
  "ex_cat_gin = \<lparr>c_id = ''c-gin'', c_name = ''Gin'', c_isActive = True\<rparr>"

definition ex_categories :: "category list" where
  "ex_categories =
     [ex_cat_gin, \<lparr>c_id = ''c-cerveja'', c_name = ''Cervejas'', c_isActive = True\<rparr>]"

definition ex_gin :: product where
  "ex_gin = \<lparr>p_id = ''p-gin'', p_name = ''Gin Tanqueray 750ml'', salePrice = 50,
     categoryId = ''c-gin'', p_isActive = True, stock = 3, comboEligible = True,
     isPrepared = False\<rparr>"

definition ex_fusion2L :: product where
  "ex_fusion2L = \<lparr>p_id = ''p-fusion'', p_name = ''Energetico Fusion 2L'', salePrice = 12,
     categoryId = ''c-energetico'', p_isActive = True, stock = 2, comboEligible = True,
     isPrepared = False\<rparr>"

definition ex_redbull :: product where
  "ex_redbull = \<lparr>p_id = ''p-redbull'', p_name = ''Red Bull Lata 250ml'', salePrice = 6,
     categoryId = ''c-energetico'', p_isActive = True, stock = 10, comboEligible = True,
     isPrepared = False\<rparr>"

definition ex_gelo_coco :: product where
  "ex_gelo_coco = \<lparr>p_id = ''p-gelo-coco'', p_name = ''GELO COCO'', salePrice = 3,
     categoryId = ''c-gelo'', p_isActive = True, stock = 1, comboEligible = True,
     isPrepared = False\<rparr>"

definition ex_gelo_maca :: product where
  "ex_gelo_maca = \<lparr>p_id = ''p-gelo-maca'', p_name = ''GELO MACA VERDE'', salePrice = 3,
     categoryId = ''c-gelo'', p_isActive = True, stock = 8, comboEligible = True,
     isPrepared = False\<rparr>"

definition ex_gelo_melancia :: product where
  "ex_gelo_melancia = \<lparr>p_id = ''p-gelo-melancia'', p_name = ''GELO MELANCIA'', salePrice = 3,
     categoryId = ''c-gelo'', p_isActive = True, stock = 6, comboEligible = True,
     isPrepared = False\<rparr>"

definition ex_gelo_maracuja :: product where
  "ex_gelo_maracuja = \<lparr>p_id = ''p-gelo-maracuja'', p_name = ''GELO MARACUJA'', salePrice = 3,
     categoryId = ''c-gelo'', p_isActive = True, stock = 4, comboEligible = True,
     isPrepared = False\<rparr>"

definition ex_gelo_saco :: product where
  "ex_gelo_saco = \<lparr>p_id = ''p-gelo-saco'', p_name = ''Gelo Saco 5kg'', salePrice = 10,
     categoryId = ''c-gelo'', p_isActive = True, stock = 2, comboEligible = True,
     isPrepared = False\<rparr>"

definition ex_caipirinha :: product where
  "ex_caipirinha = \<lparr>p_id = ''p-caipirinha'', p_name = ''Caipirinha de Limao'', salePrice = 18,
     categoryId = ''c-caipirinhas'', p_isActive = True, stock = 0, comboEligible = False,
     isPrepared = True\<rparr>"

definition ex_products :: "product list" where
  "ex_products =
     [ex_gin, ex_fusion2L, ex_redbull, ex_gelo_coco, ex_gelo_maca, ex_gelo_melancia,
      ex_gelo_maracuja, ex_gelo_saco, ex_caipirinha]"

text \<open>Selections: only the spirit chosen; everything chosen; everything chosen, all free.\<close>

definition ex_spirit_only_A :: modal_A where
  "ex_spirit_only_A =
     \<lparr>sel_A = \<lparr>selectedDestilado_A = Some ex_gin, selectedEnergetico_A = None,
                energeticoOption_A = Opt_2L_A, selectedGelo_A = None\<rparr>,
      addCombo_A = [], toast_A = [], onOpenChange_A = []\<rparr>"

definition ex_spirit_only_B :: modal_B where
  "ex_spirit_only_B =
     \<lparr>sel_B = \<lparr>selectedCategory = Some ''c-gin'', selectedDestilado_B = Some ex_gin,
                selectedGelos = [None, None, None, None], selectedEnergetico_B = None,
                energeticoOption_B = Opt_2L_B\<rparr>,
      addCombo_B = [], toast_B = [], onOpenChange_B = []\<rparr>"

definition ex_complete_A :: selection_A where
  "ex_complete_A =
     \<lparr>selectedDestilado_A = Some ex_gin, selectedEnergetico_A = Some ex_redbull,
      energeticoOption_A = Opt_5cans, selectedGelo_A = Some ex_gelo_saco\<rparr>"

definition ex_complete_B :: selection_B where
  "ex_complete_B =
     \<lparr>selectedCategory = Some ''c-gin'', selectedDestilado_B = Some ex_gin,
      selectedGelos = [Some ex_gelo_coco, Some ex_gelo_maca, Some ex_gelo_melancia,
                       Some ex_gelo_maracuja],
      selectedEnergetico_B = Some ex_redbull, energeticoOption_B = Opt_4cans\<rparr>"

definition ex_free_A :: selection_A where
  "ex_free_A =
     \<lparr>selectedDestilado_A = Some (ex_gin\<lparr>salePrice := 0\<rparr>),
      selectedEnergetico_A = Some (ex_fusion2L\<lparr>salePrice := 0\<rparr>),
      energeticoOption_A = Opt_2L_A,
      selectedGelo_A = Some (ex_gelo_saco\<lparr>salePrice := 0\<rparr>)\<rparr>"

definition ex_free_B :: selection_B where
  "ex_free_B =
     \<lparr>selectedCategory = Some ''c-gin'', selectedDestilado_B = Some (ex_gin\<lparr>salePrice := 0\<rparr>),
      selectedGelos = [Some (ex_gelo_coco\<lparr>salePrice := 0\<rparr>), Some (ex_gelo_maca\<lparr>salePrice := 0\<rparr>),
                       Some (ex_gelo_melancia\<lparr>salePrice := 0\<rparr>),
                       Some (ex_gelo_maracuja\<lparr>salePrice := 0\<rparr>)],
      selectedEnergetico_B = Some (ex_fusion2L\<lparr>salePrice := 0\<rparr>),
      energeticoOption_B = Opt_2L_B\<rparr>"

text \<open>The gin, one 2L bottle and one bag of ice: 50 + 12 + 10.\<close>

definition ex_bottle_A :: selection_A where
  "ex_bottle_A =
     \<lparr>selectedDestilado_A = Some ex_gin, selectedEnergetico_A = Some ex_fusion2L,
      energeticoOption_A = Opt_2L_A, selectedGelo_A = Some ex_gelo_saco\<rparr>"

text \<open>A cart that holds one unit of the coconut ice, and an \<open>addItem\<close> that adds a line.\<close>

definition ex_cart :: drinks where
  "ex_cart = \<lparr>items = [\<lparr>productId = ''p-gelo-coco'', quantity = 1\<rparr>], toast_D = []\<rparr>"

definition ex_addItem :: "product \<Rightarrow> cartItem list \<Rightarrow> cartItem list" where
  "ex_addItem product its = its @ [\<lparr>productId = p_id product, quantity = 1\<rparr>]"

section \<open>Helper lemmas\<close>

text \<open>\<open>str_includes\<close> is the substring test.\<close>

lemma str_includes_iff: "str_includes s sub \<longleftrightarrow> (\<exists>pre post. s = pre @ sub @ post)"
proof (induction s)
  case Nil
  then show ?case by auto
next
  case (Cons c cs)
  have here: "take (length sub) (c # cs) = sub \<longleftrightarrow> (\<exists>post. c # cs = sub @ post)"
    by (metis append_eq_conv_conj)
  have "(\<exists>pre post. c # cs = pre @ sub @ post) \<longleftrightarrow>
      (\<exists>post. c # cs = sub @ post) \<or> (\<exists>pre post. cs = pre @ sub @ post)"
  proof
    assume "\<exists>pre post. c # cs = pre @ sub @ post"
    then obtain pre post where e: "c # cs = pre @ sub @ post" by blast
    show "(\<exists>post. c # cs = sub @ post) \<or> (\<exists>pre post. cs = pre @ sub @ post)"
    proof (cases pre)
      case Nil
      with e show ?thesis by auto
    next
      case (Cons a pre')
      with e have "cs = pre' @ sub @ post" by simp
      then show ?thesis by blast
    qed
  next
    assume "(\<exists>post. c # cs = sub @ post) \<or> (\<exists>pre post. cs = pre @ sub @ post)"
    then show "\<exists>pre post. c # cs = pre @ sub @ post"
    proof
      assume "\<exists>post. c # cs = sub @ post"
      then obtain post where "c # cs = [] @ sub @ post" by auto
      then show ?thesis by blast
    next
      assume "\<exists>pre post. cs = pre @ sub @ post"
      then obtain pre post where "c # cs = (c # pre) @ sub @ post" by auto
      then show ?thesis by blast
    qed
  qed
  with here Cons.IH show ?case by simp
qed

lemma destiladosCategoryIds_iff:
  "k \<in> set (destiladosCategoryIds lc categories) \<longleftrightarrow>
     (\<exists>c \<in> set categories. c_id c = k \<and>
        (\<exists>kw \<in> set destiladoKeywords. str_includes (lc (c_name c)) kw))"
  by (auto simp: destiladosCategoryIds_def list_ex_iff image_iff)

lemma destilados_iff:
  "p \<in> set (destilados lc categories products) \<longleftrightarrow>
     p \<in> set products \<and> comboEligible p \<and> p_isActive p \<and> stock p > 0 \<and>
     (\<exists>c \<in> set categories. c_id c = categoryId p \<and>
        (\<exists>k \<in> set destiladoKeywords. str_includes (lc (c_name c)) k))"
  by (simp add: destilados_def destiladosCategoryIds_iff)

lemma find_category_Some:
  "List.find (\<lambda>c. c_id c = sel) categories = Some category \<Longrightarrow>
   c_id category = sel \<and> category \<in> set categories"
  by (induction categories) (auto split: if_splits)

lemma find_category_None:
  "List.find (\<lambda>c. c_id c = sel) categories = None \<longleftrightarrow> sel \<notin> c_id ` set categories"
  by (induction categories) auto

lemma destiladosByCategory_iff:
  "p \<in> set (destiladosByCategory categories products sc) \<longleftrightarrow>
     p \<in> set products \<and> comboEligible p \<and> p_isActive p \<and> stock p > 0 \<and>
     (\<exists>sel. sc = Some sel \<and> sel \<noteq> [] \<and> sel \<in> c_id ` set categories \<and> categoryId p = sel)"
proof (cases sc)
  case None
  then show ?thesis by (simp add: destiladosByCategory_def)
next
  case chosen: (Some sel)
  show ?thesis
  proof (cases "List.find (\<lambda>c. c_id c = sel) categories")
    case None
    then have "sel \<notin> c_id ` set categories"
      by (simp add: find_category_None)
    with chosen None show ?thesis
      by (simp add: destiladosByCategory_def)
  next
    case (Some category)
    from find_category_Some[OF this] have c: "c_id category = sel" "category \<in> set categories"
      by simp_all
    then have "sel \<in> c_id ` set categories"
      by (auto simp: image_iff)
    with chosen Some c show ?thesis
      by (auto simp: destiladosByCategory_def)
  qed
qed

lemma comboCategories_iff:
  "cat \<in> set (comboCategories lc categories) \<longleftrightarrow>
     cat \<in> set categories \<and> (\<exists>name \<in> set COMBO_CATEGORIES. lc (c_name cat) = lc name)"
  by (auto simp: comboCategories_def list_ex_iff)

lemma other_slot_excluded:
  assumes "p \<in> set (getAvailableGelosForSlot lc products gs k)"
    and "j < length gs" and "j \<noteq> k" and "gs ! j = Some b"
  shows "p_id p \<noteq> p_id b"
proof -
  have "(gs ! j, j) \<in> set (zip gs [0..<length gs])"
    using assms(2) by (auto simp: in_set_zip intro!: exI[of _ j])
  with assms(3,4) have "(Some b, j) \<in> set (filter (\<lambda>(g, idx). g \<noteq> None \<and> idx \<noteq> k)
      (zip gs [0..<length gs]))"
    by simp
  then have "(\<lambda>(g, idx). p_id (the g)) (Some b, j) \<in> set (map (\<lambda>(g, idx). p_id (the g))
      (filter (\<lambda>(g, idx). g \<noteq> None \<and> idx \<noteq> k) (zip gs [0..<length gs])))"
    unfolding set_map by (rule imageI)
  then have "p_id b \<in> set (map (\<lambda>(g, idx). p_id (the g))
      (filter (\<lambda>(g, idx). g \<noteq> None \<and> idx \<noteq> k) (zip gs [0..<length gs])))"
    by simp
  moreover from assms(1) have "p_id p \<notin> set (map (\<lambda>(g, idx). p_id (the g))
      (filter (\<lambda>(g, idx). g \<noteq> None \<and> idx \<noteq> k) (zip gs [0..<length gs])))"
    by (simp add: getAvailableGelosForSlot_def)
  ultimately show ?thesis
    by metis
qed

lemma handleSelectGelo_in_range:
  "index < length prev \<Longrightarrow> handleSelectGelo index v prev = prev[index := v]"
  by (simp add: handleSelectGelo_def)

lemma clear_keeps_noDuplicateIce:
  assumes inv: "noDuplicateIce gs"
  shows "noDuplicateIce (gs[k := None])"
  unfolding noDuplicateIce_def
proof (intro allI impI)
  fix i j
  assume i: "i < length (gs[k := None])" and j: "j < length (gs[k := None])"
    and ne: "i \<noteq> j"
    and fi: "gs[k := None] ! i \<noteq> None" and fj: "gs[k := None] ! j \<noteq> None"
  from fi i have ik: "i \<noteq> k" by auto
  from fj j have jk: "j \<noteq> k" by auto
  from inv i j ne fi fj ik jk
  show "p_id (the (gs[k := None] ! i)) \<noteq> p_id (the (gs[k := None] ! j))"
    unfolding noDuplicateIce_def by simp
qed

lemma pick_keeps_noDuplicateIce:
  assumes inv: "noDuplicateIce gs" and k: "k < length gs"
    and av: "p \<in> set (getAvailableGelosForSlot lc products gs k)"
  shows "noDuplicateIce (gs[k := Some p])"
  unfolding noDuplicateIce_def
proof (intro allI impI)
  fix i j
  assume i: "i < length (gs[k := Some p])" and j: "j < length (gs[k := Some p])"
    and ne: "i \<noteq> j"
    and fi: "gs[k := Some p] ! i \<noteq> None" and fj: "gs[k := Some p] ! j \<noteq> None"
  show "p_id (the (gs[k := Some p] ! i)) \<noteq> p_id (the (gs[k := Some p] ! j))"
  proof (cases "i = k")
    case True
    with ne have jk: "j \<noteq> k" by simp
    with fj j obtain b where b: "gs ! j = Some b" by auto
    from other_slot_excluded[OF av _ jk b] j have "p_id p \<noteq> p_id b" by simp
    with True jk k b show ?thesis by simp
  next
    case ik: False
    from fi i ik obtain a where a: "gs ! i = Some a" by auto
    show ?thesis
    proof (cases "j = k")
      case True
      from other_slot_excluded[OF av _ ik a] i have "p_id p \<noteq> p_id a" by simp
      with True ik k a show ?thesis by auto
    next
      case False
      with fj j obtain b where b: "gs ! j = Some b" by auto
      from inv i j ne a b have "p_id a \<noteq> p_id b"
        unfolding noDuplicateIce_def by force
      with ik False a b show ?thesis by simp
    qed
  qed
qed

lemma click_preserves:
  assumes len: "length gs = ICE_COUNT" and inv: "noDuplicateIce gs"
    and r: "offered lc products gs c"
  shows "length (onClick_gelo c gs) = ICE_COUNT \<and> noDuplicateIce (onClick_gelo c gs)"
proof (cases c)
  case (Clear k)
  with r len have k: "k < length gs" by simp
  with Clear len clear_keeps_noDuplicateIce[OF inv, of k] show ?thesis
    by (simp add: handleSelectGelo_in_range)
next
  case (Pick k p)
  with r len have k: "k < length gs"
    and av: "p \<in> set (getAvailableGelosForSlot lc products gs k)" by simp_all
  with Pick len pick_keeps_noDuplicateIce[OF inv k av] show ?thesis
    by (simp add: handleSelectGelo_in_range)
qed

lemma clickGelos_preserves:
  "clickGelos lc products clicks gs = Some gs' \<Longrightarrow> length gs = ICE_COUNT \<Longrightarrow>
   noDuplicateIce gs \<Longrightarrow> length gs' = ICE_COUNT \<and> noDuplicateIce gs'"
proof (induction clicks arbitrary: gs)
  case Nil
  then show ?case by simp
next
  case (Cons c cs)
  from Cons.prems(1) have r: "offered lc products gs c"
    and rest: "clickGelos lc products cs (onClick_gelo c gs) = Some gs'"
    by (simp_all split: if_splits)
  from click_preserves[OF Cons.prems(2,3) r] Cons.IH[OF rest] show ?case by simp
qed

lemma noDuplicateIce_initial: "noDuplicateIce (replicate n None)"
  by (simp add: noDuplicateIce_def)

lemma foldl_salePrice:
  "foldl (\<lambda>sum g. sum + salePrice g) acc xs = acc + sum_list (map salePrice xs)"
  by (induction xs arbitrary: acc) (simp_all add: add.assoc)

lemma validGelos_length: "length (validGelos t) = validGelosCount t"
  by (simp add: validGelos_def validGelosCount_def)

lemma incomplete_A:
  "\<not> isComplete_A s \<Longrightarrow> calculateTotal_A lc s = \<lparr>original = 0, discounted = 0\<rparr>"
  by (auto simp: isComplete_A_def calculateTotal_A_def split: option.splits)

lemma incomplete_B:
  "\<not> isComplete_B t \<Longrightarrow> calculateTotal_B t = \<lparr>original = 0, discounted = 0\<rparr>"
  by (auto simp: isComplete_B_def calculateTotal_B_def validGelos_length split: option.splits)

lemma complete_A:
  "selectedDestilado_A s = Some d \<and> selectedEnergetico_A s = Some e \<and>
   selectedGelo_A s = Some g \<Longrightarrow>
   calculateTotal_A lc s =
     \<lparr>original = salePrice d + salePrice e * of_nat (energeticoQuantity_A s) +
                  salePrice g * of_nat (geloQuantity_A lc s),
      discounted = (salePrice d + salePrice e * of_nat (energeticoQuantity_A s) +
                  salePrice g * of_nat (geloQuantity_A lc s)) * (95 / 100)\<rparr>"
  by (simp add: calculateTotal_A_def Let_def)

lemma complete_B:
  "selectedDestilado_B t = Some d \<and> selectedEnergetico_B t = Some e \<and>
   validGelosCount t = ICE_COUNT \<Longrightarrow>
   calculateTotal_B t =
     \<lparr>original = salePrice d + salePrice e * of_nat (energeticoQuantity_B t) +
                  sum_list (map salePrice (validGelos t)),
      discounted = (salePrice d + salePrice e * of_nat (energeticoQuantity_B t) +
                  sum_list (map salePrice (validGelos t))) * (95 / 100)\<rparr>"
  by (simp add: calculateTotal_B_def Let_def validGelos_length foldl_salePrice)

lemma totals_zero_iff:
  "\<lparr>original = x, discounted = x * (95 / 100)\<rparr> = \<lparr>original = 0, discounted = 0\<rparr> \<longleftrightarrow> x = 0"
  by auto

lemma toasts_differ: "outOfStock p \<noteq> itemAdded p"
proof
  assume "outOfStock p = itemAdded p"
  then have "title (outOfStock p) = title (itemAdded p)" by simp
  then show False by (simp add: outOfStock_def itemAdded_def)
qed

text \<open>The rounding \<open>fl64\<close>: exponent bounds and relative error.\<close>

lemma bitLength_bounds:
  "0 < n \<Longrightarrow> 2 ^ (bitLength n - 1) \<le> n \<and> n < 2 ^ bitLength n"
proof (induction n rule: bitLength.induct)
  case (1 n)
  show ?case
  proof (cases "n div 2 = 0")
    case True
    with "1.prems" have "n = 1" by auto
    then show ?thesis by (simp add: bitLength.simps)
  next
    case False
    then have pos: "0 < n div 2" by simp
    from "1.prems" have n0: "n \<noteq> 0" by simp
    from "1.IH"[OF n0 pos]
    have lo: "2 ^ (bitLength (n div 2) - 1) \<le> n div 2"
      and hi: "n div 2 < 2 ^ bitLength (n div 2)" by simp_all
    have b: "bitLength n = Suc (bitLength (n div 2))"
      using n0 by (simp add: bitLength.simps[of n])
    have bpos: "0 < bitLength (n div 2)"
      using pos by (simp add: bitLength.simps[of "n div 2"])
    then have "(2::nat) ^ bitLength (n div 2) = 2 * 2 ^ (bitLength (n div 2) - 1)"
      by (cases "bitLength (n div 2)") simp_all
    with lo have "(2::nat) ^ bitLength (n div 2) \<le> 2 * (n div 2)" by simp
    then have l: "(2::nat) ^ bitLength (n div 2) \<le> n" by arith
    from hi have "n < 2 * 2 ^ bitLength (n div 2)" by arith
    with l b show ?thesis by simp
  qed
qed

lemma roundHalfEven_error: "\<bar>of_int (roundHalfEven y) - y\<bar> \<le> 1 / 2"
proof -
  have "of_int \<lfloor>y\<rfloor> \<le> y" "y < of_int \<lfloor>y\<rfloor> + 1" by linarith+
  then show ?thesis
    by (auto simp: roundHalfEven_def Let_def abs_le_iff)
qed

lemma two_powi_nat: "(2::rat) powi (int n) = 2 ^ n"
  by (simp add: power_int_def)

lemma two_powi_neg: "(2::rat) powi (- int n) = 1 / 2 ^ n"
  by (simp add: power_int_def inverse_eq_divide power_one_over)

lemma two_powi_Suc: "(2::rat) powi (e + 1) = 2 * 2 powi e"
  by (simp add: power_int_add)

lemma two_powi_pos: "0 < (2::rat) powi e"
  by simp

lemma two_powi_mono: "a \<le> b \<Longrightarrow> (2::rat) powi a \<le> 2 powi b"
  by (rule power_int_increasing) simp_all

lemma two_power_le_rat:
  assumes "(2::nat) ^ k \<le> m" and "of_nat m \<le> (x::rat)"
  shows "2 ^ k \<le> x"
proof -
  from assms(1) have "(of_nat (2 ^ k) :: rat) \<le> of_nat m" by (rule of_nat_mono)
  then have "(2::rat) ^ k \<le> of_nat m" by simp
  then show ?thesis using assms(2) by (rule order_trans)
qed

lemma less_two_power_rat:
  assumes "m < (2::nat) ^ k" and "(x::rat) < of_nat m + 1"
  shows "x < 2 ^ k"
proof -
  from assms(1) have "m + 1 \<le> 2 ^ k" by simp
  then have "(of_nat (m + 1) :: rat) \<le> of_nat (2 ^ k)" by (rule of_nat_mono)
  then have "of_nat m + 1 \<le> (2::rat) ^ k" by simp
  with assms(2) show ?thesis by (rule less_le_trans)
qed

lemma ilog2_bounds:
  assumes "0 < x"
  shows "2 powi ilog2 x \<le> x \<and> x < 2 powi (ilog2 x + 1)"
proof (cases "1 \<le> x")
  case True
  define m where "m = nat \<lfloor>x\<rfloor>"
  from True have mpos: "0 < m" by (simp add: m_def)
  from bitLength_bounds[OF mpos] have lo: "2 ^ (bitLength m - 1) \<le> m"
    and hi: "m < 2 ^ bitLength m"
    by simp_all
  from hi mpos obtain k where b: "bitLength m = Suc k" by (cases "bitLength m") simp_all
  from True have mx: "of_nat m \<le> x" and xm: "x < of_nat m + 1"
    by (simp_all add: m_def) linarith+
  from True b have e: "ilog2 x = int k"
    by (simp add: ilog2_def m_def)
  from lo b have "2 ^ k \<le> m" by simp
  from two_power_le_rat[OF this mx] have l: "(2::rat) powi (int k) \<le> x"
    by (simp only: two_powi_nat)
  from hi b have "m < 2 ^ Suc k" by simp
  from less_two_power_rat[OF this xm] have "x < 2 powi (int (Suc k))"
    by (simp only: two_powi_nat)
  moreover have "int (Suc k) = int k + 1" by simp
  ultimately have "x < 2 powi (int k + 1)" by (simp add: add.commute)
  with l e show ?thesis by simp
next
  case False
  define y where "y = 1 / x"
  define m where "m = nat \<lfloor>y\<rfloor>"
  from False assms have y1: "1 < y" by (simp add: y_def)
  then have mpos: "0 < m" by (simp add: m_def)
  from bitLength_bounds[OF mpos] have lo: "2 ^ (bitLength m - 1) \<le> m"
    and hi: "m < 2 ^ bitLength m"
    by simp_all
  from hi mpos obtain k where b: "bitLength m = Suc k" by (cases "bitLength m") simp_all
  from y1 have my: "of_nat m \<le> y" and ym: "y < of_nat m + 1"
    by (simp_all add: m_def) linarith+
  from lo b have "2 ^ k \<le> m" by simp
  from two_power_le_rat[OF this my] have l: "(2::rat) ^ k \<le> y" .
  from hi b have "m < 2 ^ Suc k" by simp
  from less_two_power_rat[OF this ym] have h: "y < 2 ^ Suc k" .
  have xy: "x = 1 / y" using assms by (simp add: y_def)
  have kpos: "(0::rat) < 2 ^ k" by simp
  from l y1 kpos have xle: "x \<le> 1 / 2 ^ k"
    unfolding xy by (simp add: field_simps)
  from h y1 have xgt: "1 / 2 ^ Suc k < x"
    unfolding xy by (simp add: field_simps)
  have kk: "int (bitLength (nat \<lfloor>1 / x\<rfloor>)) - 1 = int k"
    using b by (simp add: m_def y_def)
  show ?thesis
  proof (cases "2 powi (- int k) \<le> x")
    case t: True
    with False kk have e: "ilog2 x = - int k"
      by (simp add: ilog2_def Let_def)
    from xle kpos have "x < 2 * (1 / 2 ^ k)" by (simp add: field_simps)
    then have "x < 2 powi (- int k + 1)"
      by (simp only: two_powi_Suc two_powi_neg)
    with t e show ?thesis by simp
  next
    case f: False
    with \<open>\<not> 1 \<le> x\<close> kk have e: "ilog2 x = - int k - 1"
      by (simp add: ilog2_def Let_def)
    have "- int k - 1 = - int (Suc k)" by simp
    with e have e': "ilog2 x = - int (Suc k)" by simp
    have s: "- int (Suc k) + 1 = - int k" by simp
    from xgt have lo': "2 powi (- int (Suc k)) \<le> x"
      by (simp only: two_powi_neg)
    from f have "x < 2 powi (- int k)" by simp
    with lo' show ?thesis
      by (simp only: e' s)
  qed
qed

lemma fl64_error:
  assumes "2 powi (- 1022) \<le> \<bar>x\<bar>"
  shows "\<bar>fl64 x - x\<bar> \<le> 2 powi (- 53) * \<bar>x\<bar>"
proof -
  have pos: "0 < \<bar>x\<bar>"
    using assms two_powi_pos[of "- 1022"] by linarith
  then have x0: "x \<noteq> 0" by simp
  define e where "e = ilog2 \<bar>x\<bar>"
  from ilog2_bounds[OF pos] have lo: "2 powi e \<le> \<bar>x\<bar>" and hi: "\<bar>x\<bar> < 2 powi (e + 1)"
    by (simp_all add: e_def)
  have e_min: "- 1022 \<le> e"
  proof (rule ccontr)
    assume "\<not> - 1022 \<le> e"
    then have "e + 1 \<le> - 1022" by simp
    then have "(2::rat) powi (e + 1) \<le> 2 powi (- 1022)" by (rule two_powi_mono)
    with hi assms show False by linarith
  qed
  define ulp :: rat where "ulp = 2 powi (e - 52)"
  have ulp_pos: "0 < ulp" by (simp add: ulp_def)
  define n where "n = roundHalfEven (x / ulp)"
  from x0 e_min have f: "fl64 x = of_int n * ulp"
    by (simp add: fl64_def Let_def e_def[symmetric] ulp_def n_def max_def)
  have "fl64 x - x = (of_int n - x / ulp) * ulp"
    using ulp_pos by (simp add: f field_simps)
  then have "\<bar>fl64 x - x\<bar> = \<bar>of_int n - x / ulp\<bar> * ulp"
    using ulp_pos by (simp add: abs_mult)
  also have "\<dots> \<le> 1 / 2 * ulp"
    using roundHalfEven_error[of "x / ulp"] ulp_pos
    by (intro mult_right_mono) (simp_all add: n_def)
  also have "1 / 2 * ulp = 2 powi (- 53) * 2 powi e"
  proof -
    have "(2::rat) powi (e - 52) = 2 powi (e - 53 + 1)" by simp
    also have "\<dots> = 2 * 2 powi (e - 53)" by (rule two_powi_Suc)
    finally have "1 / 2 * ulp = 2 powi (e - 53)" by (simp add: ulp_def)
    also have "e - 53 = - 53 + e" by simp
    also have "(2::rat) powi (- 53 + e) = 2 powi (- 53) * 2 powi e"
      by (rule power_int_add) simp
    finally show ?thesis .
  qed
  also have "\<dots> \<le> 2 powi (- 53) * \<bar>x\<bar>"
    using lo by (intro mult_left_mono) simp_all
  finally show ?thesis .
qed

lemma fl64_zero: "fl64 0 = 0"
  by (simp add: fl64_def)

lemma fl64_095: "fl64 (95 / 100) = 4278419646001971 / 4503599627370496"
  by code_simp

lemma fl64_095_error:
  "\<bar>4278419646001971 / 4503599627370496 - 95 / 100\<bar> \<le> (2::rat) powi (- 54)"
  by code_simp

lemma fl64_discount_error:
  assumes "x = 0 \<or> 2 powi (- 1021) \<le> \<bar>x\<bar>"
  shows "\<bar>fl64 (x * fl64 (95 / 100)) - x * (95 / 100)\<bar> \<le> 2 powi (- 52) * \<bar>x\<bar>"
proof (cases "x = 0")
  case True
  then show ?thesis by (simp add: fl64_zero)
next
  case False
  with assms have r: "2 powi (- 1021) \<le> \<bar>x\<bar>" by simp
  define c :: rat where "c = 4278419646001971 / 4503599627370496"
  have c: "fl64 (95 / 100) = c" unfolding c_def by (rule fl64_095)
  have c_lo: "1 / 2 \<le> c" and c_hi: "c \<le> 1" and c_pos: "0 \<le> c"
    by (simp_all add: c_def)
  have c_err: "\<bar>c - 95 / 100\<bar> \<le> 2 powi (- 54)"
    unfolding c_def by (rule fl64_095_error)
  have "(2::rat) powi (- 1022) = 2 powi (- 1021) * (1 / 2)"
  proof -
    have "(2::rat) powi (- 1021) = 2 powi (- 1022 + 1)" by simp
    also have "\<dots> = 2 * 2 powi (- 1022)" by (rule two_powi_Suc)
    finally show ?thesis by simp
  qed
  also have "\<dots> \<le> \<bar>x\<bar> * c"
    using r c_lo by (intro mult_mono) simp_all
  finally have "2 powi (- 1022) \<le> \<bar>x * c\<bar>"
    using c_pos by (simp add: abs_mult)
  from fl64_error[OF this] have "\<bar>fl64 (x * c) - x * c\<bar> \<le> 2 powi (- 53) * \<bar>x * c\<bar>" .
  also have "\<dots> \<le> 2 powi (- 53) * \<bar>x\<bar>"
  proof -
    have "\<bar>x * c\<bar> = \<bar>x\<bar> * c" using c_pos by (simp add: abs_mult)
    also have "\<dots> \<le> \<bar>x\<bar> * 1" using c_hi by (intro mult_left_mono) simp_all
    finally show ?thesis by (intro mult_left_mono) simp_all
  qed
  finally have a: "\<bar>fl64 (x * c) - x * c\<bar> \<le> 2 powi (- 53) * \<bar>x\<bar>" .
  have "x * c - x * (95 / 100) = x * (c - 95 / 100)"
    by (rule right_diff_distrib[symmetric])
  then have "\<bar>x * c - x * (95 / 100)\<bar> = \<bar>x\<bar> * \<bar>c - 95 / 100\<bar>"
    by (simp only: abs_mult)
  also have "\<dots> \<le> \<bar>x\<bar> * 2 powi (- 54)"
    using c_err by (intro mult_left_mono) simp_all
  finally have b: "\<bar>x * c - x * (95 / 100)\<bar> \<le> 2 powi (- 54) * \<bar>x\<bar>"
    by (simp add: mult.commute)
  have "(2::rat) powi (- 54) \<le> 2 powi (- 53)" by (rule two_powi_mono) simp
  then have "2 powi (- 54) * \<bar>x\<bar> \<le> 2 powi (- 53) * \<bar>x\<bar>"
    by (intro mult_right_mono) simp_all
  with b have b': "\<bar>x * c - x * (95 / 100)\<bar> \<le> 2 powi (- 53) * \<bar>x\<bar>" by linarith
  have "(2::rat) powi (- 52) = 2 powi (- 53 + 1)" by simp
  also have "\<dots> = 2 * 2 powi (- 53)" by (rule two_powi_Suc)
  finally have t: "(2::rat) powi (- 52) * \<bar>x\<bar> = 2 powi (- 53) * \<bar>x\<bar> + 2 powi (- 53) * \<bar>x\<bar>"
    by (simp add: algebra_simps)
  have "\<bar>fl64 (x * c) - x * (95 / 100)\<bar> \<le> \<bar>fl64 (x * c) - x * c\<bar> + \<bar>x * c - x * (95 / 100)\<bar>"
    by linarith
  with a b' t show ?thesis unfolding c by linarith
qed

lemma calculateTotal_fl_A_exact: "calculateTotal_fl_A (\<lambda>x. x) lc s = calculateTotal_A lc s"
  by (simp add: calculateTotal_fl_A_def calculateTotal_A_def)

lemma calculateTotal_fl_B_exact: "calculateTotal_fl_B (\<lambda>x. x) s = calculateTotal_B s"
  by (simp add: calculateTotal_fl_B_def calculateTotal_B_def)

lemma discounted_fl_A:
  "isComplete_A s \<Longrightarrow>
   discounted (calculateTotal_fl_A fl lc s) =
     fl (original (calculateTotal_fl_A fl lc s) * fl (95 / 100))"
  by (auto simp: isComplete_A_def calculateTotal_fl_A_def Let_def)

lemma discounted_fl_B:
  "isComplete_B t \<Longrightarrow>
   discounted (calculateTotal_fl_B fl t) =
     fl (original (calculateTotal_fl_B fl t) * fl (95 / 100))"
  by (auto simp: isComplete_B_def calculateTotal_fl_B_def Let_def validGelos_length)

lemma discounted_fl64_A:
  "discounted (calculateTotal_fl_A fl64 lc s) =
     fl64 (original (calculateTotal_fl_A fl64 lc s) * fl64 (95 / 100))"
  by (auto simp: calculateTotal_fl_A_def Let_def fl64_zero split: option.splits)

lemma discounted_fl64_B:
  "discounted (calculateTotal_fl_B fl64 t) =
     fl64 (original (calculateTotal_fl_B fl64 t) * fl64 (95 / 100))"
  by (auto simp: calculateTotal_fl_B_def Let_def fl64_zero split: option.splits)

lemma fl64_scenario:
  "fl64 50 = 50 \<and> fl64 6 = 6 \<and> fl64 3 = 3 \<and> fl64 24 = 24 \<and> fl64 9 = 9 \<and> fl64 12 = 12 \<and>
   fl64 74 = 74 \<and> fl64 86 = 86 \<and> fl64 (86 * fl64 (95 / 100)) = fl64 (817 / 10) \<and>
   \<bar>fl64 (817 / 10) - 817 / 10\<bar> < 1 / 10 ^ 14"
  by code_simp

section \<open>Slot selection\<close>

text \<open>
  C1. In both variants a pack button sets the pack option to the button's value and
  leaves no energy drink selected, whatever was selected before.
\<close>

theorem pack_button_clears_energetico:
  "selectedEnergetico_A (energeticoButton_A x s) = None \<and>
   energeticoOption_A (energeticoButton_A x s) = x \<and>
   selectedEnergetico_B (energeticoButton_B y t) = None \<and>
   energeticoOption_B (energeticoButton_B y t) = y"
  by (simp add: energeticoButton_A_def energeticoButton_B_def)

text \<open>
  C2. Variant B. Start from the four empty slots and make any sequence of calls of
  \<open>handleSelectGelo\<close> on the four slots, each clearing a slot or putting in it a product
  that \<open>getAvailableGelosForSlot\<close> offers for that slot at that moment. Then two different slots that are
  both filled hold products with different identifiers.
\<close>

theorem filled_slots_hold_distinct_products:
  assumes "clickGelos lc products clicks (replicate ICE_COUNT None) = Some gs"
    and "i < length gs" and "j < length gs" and "i \<noteq> j"
    and "gs ! i = Some a" and "gs ! j = Some b"
  shows "p_id a \<noteq> p_id b"
proof -
  from clickGelos_preserves[OF assms(1) _ noDuplicateIce_initial]
  have "noDuplicateIce gs" by simp
  with assms(2-) show ?thesis
    unfolding noDuplicateIce_def by force
qed

theorem filled_slots_hold_distinct_products_witness:
  "clickGelos asciiLower ex_products [Pick 0 ex_gelo_coco, Pick 1 ex_gelo_maca, Clear 0,
       Pick 0 ex_gelo_melancia] (replicate ICE_COUNT None) =
     Some [Some ex_gelo_melancia, Some ex_gelo_maca, None, None] \<and>
   p_id ex_gelo_melancia \<noteq> p_id ex_gelo_maca"
proof -
  have run: "clickGelos asciiLower ex_products [Pick 0 ex_gelo_coco, Pick 1 ex_gelo_maca,
       Clear 0, Pick 0 ex_gelo_melancia] (replicate ICE_COUNT None) =
     Some [Some ex_gelo_melancia, Some ex_gelo_maca, None, None]"
    by code_simp
  have "p_id ex_gelo_melancia \<noteq> p_id ex_gelo_maca"
    by (rule filled_slots_hold_distinct_products[OF run, where i = 0 and j = 1]) simp_all
  with run show ?thesis by simp
qed

section \<open>Pricing\<close>

text \<open>
  C4, as amended. Whenever the selection is incomplete both totals are zero. For a
  complete selection both totals are zero exactly when the undiscounted sum, the prices
  of the selected products times their quantities, is zero.
\<close>

theorem zero_totals:
  "(\<not> isComplete_A s \<longrightarrow> calculateTotal_A lc s = \<lparr>original = 0, discounted = 0\<rparr>) \<and>
   (\<not> isComplete_B t \<longrightarrow> calculateTotal_B t = \<lparr>original = 0, discounted = 0\<rparr>) \<and>
   (selectedDestilado_A s = Some d \<and> selectedEnergetico_A s = Some e \<and>
    selectedGelo_A s = Some g \<longrightarrow>
      (calculateTotal_A lc s = \<lparr>original = 0, discounted = 0\<rparr> \<longleftrightarrow>
       salePrice d + salePrice e * of_nat (energeticoQuantity_A s) +
         salePrice g * of_nat (geloQuantity_A lc s) = 0)) \<and>
   (selectedDestilado_B t = Some d' \<and> selectedEnergetico_B t = Some e' \<and>
    validGelosCount t = ICE_COUNT \<longrightarrow>
      (calculateTotal_B t = \<lparr>original = 0, discounted = 0\<rparr> \<longleftrightarrow>
       salePrice d' + salePrice e' * of_nat (energeticoQuantity_B t) +
         sum_list (map salePrice (validGelos t)) = 0))"
proof (intro conjI impI)
  assume "\<not> isComplete_A s"
  then show "calculateTotal_A lc s = \<lparr>original = 0, discounted = 0\<rparr>"
    by (rule incomplete_A)
next
  assume "\<not> isComplete_B t"
  then show "calculateTotal_B t = \<lparr>original = 0, discounted = 0\<rparr>"
    by (rule incomplete_B)
next
  assume "selectedDestilado_A s = Some d \<and> selectedEnergetico_A s = Some e \<and>
    selectedGelo_A s = Some g"
  then show "calculateTotal_A lc s = \<lparr>original = 0, discounted = 0\<rparr> \<longleftrightarrow>
       salePrice d + salePrice e * of_nat (energeticoQuantity_A s) +
         salePrice g * of_nat (geloQuantity_A lc s) = 0"
    by (simp only: complete_A totals_zero_iff)
next
  assume "selectedDestilado_B t = Some d' \<and> selectedEnergetico_B t = Some e' \<and>
    validGelosCount t = ICE_COUNT"
  then show "calculateTotal_B t = \<lparr>original = 0, discounted = 0\<rparr> \<longleftrightarrow>
       salePrice d' + salePrice e' * of_nat (energeticoQuantity_B t) +
         sum_list (map salePrice (validGelos t)) = 0"
    by (simp only: complete_B totals_zero_iff)
qed

text \<open>
  On the sample catalog: with only the spirit chosen the totals are zero; the complete
  selection of variant B (spirit 50, four cans at 6, four ice units at 3) is priced 86,
  so its totals are not zero.
\<close>

theorem zero_totals_witness:
  "\<not> isComplete_A (sel_A ex_spirit_only_A) \<and>
   calculateTotal_A asciiLower (sel_A ex_spirit_only_A) = \<lparr>original = 0, discounted = 0\<rparr> \<and>
   \<not> isComplete_B (sel_B ex_spirit_only_B) \<and>
   calculateTotal_B (sel_B ex_spirit_only_B) = \<lparr>original = 0, discounted = 0\<rparr> \<and>
   selectedDestilado_A ex_complete_A = Some ex_gin \<and>
   selectedEnergetico_A ex_complete_A = Some ex_redbull \<and>
   selectedGelo_A ex_complete_A = Some ex_gelo_saco \<and>
   calculateTotal_A asciiLower ex_complete_A \<noteq> \<lparr>original = 0, discounted = 0\<rparr> \<and>
   selectedDestilado_B ex_complete_B = Some ex_gin \<and>
   selectedEnergetico_B ex_complete_B = Some ex_redbull \<and>
   validGelosCount ex_complete_B = ICE_COUNT \<and>
   calculateTotal_B ex_complete_B \<noteq> \<lparr>original = 0, discounted = 0\<rparr>"
proof -
  have inc: "\<not> isComplete_A (sel_A ex_spirit_only_A)" "\<not> isComplete_B (sel_B ex_spirit_only_B)"
    by code_simp+
  have a: "selectedDestilado_A ex_complete_A = Some ex_gin \<and>
      selectedEnergetico_A ex_complete_A = Some ex_redbull \<and>
      selectedGelo_A ex_complete_A = Some ex_gelo_saco"
    by (simp add: ex_complete_A_def)
  have b: "selectedDestilado_B ex_complete_B = Some ex_gin \<and>
      selectedEnergetico_B ex_complete_B = Some ex_redbull \<and>
      validGelosCount ex_complete_B = ICE_COUNT"
    by (simp add: ex_complete_B_def validGelosCount_def ICE_COUNT_def)
  have pa: "salePrice ex_gin + salePrice ex_redbull * of_nat (energeticoQuantity_A ex_complete_A) +
      salePrice ex_gelo_saco * of_nat (geloQuantity_A asciiLower ex_complete_A) \<noteq> 0"
    by code_simp
  have pb: "salePrice ex_gin + salePrice ex_redbull * of_nat (energeticoQuantity_B ex_complete_B) +
      sum_list (map salePrice (validGelos ex_complete_B)) = 86"
    by code_simp
  from zero_totals[of "sel_A ex_spirit_only_A" asciiLower "sel_B ex_spirit_only_B"] inc
  have z: "calculateTotal_A asciiLower (sel_A ex_spirit_only_A) = \<lparr>original = 0, discounted = 0\<rparr>"
    "calculateTotal_B (sel_B ex_spirit_only_B) = \<lparr>original = 0, discounted = 0\<rparr>"
    by simp_all
  from zero_totals[of ex_complete_A asciiLower ex_complete_B ex_gin ex_redbull ex_gelo_saco
      ex_gin ex_redbull] a b pa pb
  have nz: "calculateTotal_A asciiLower ex_complete_A \<noteq> \<lparr>original = 0, discounted = 0\<rparr>"
    "calculateTotal_B ex_complete_B \<noteq> \<lparr>original = 0, discounted = 0\<rparr>"
    by simp_all
  from inc a b z nz show ?thesis by simp
qed

text \<open>
  C4 as stated fails: a selection can be complete and priced zero. Here every selected
  product has sale price 0, in variant A and in variant B.
\<close>

theorem complete_selection_priced_zero:
  "isComplete_A ex_free_A \<and>
   calculateTotal_A asciiLower ex_free_A = \<lparr>original = 0, discounted = 0\<rparr> \<and>
   isComplete_B ex_free_B \<and>
   calculateTotal_B ex_free_B = \<lparr>original = 0, discounted = 0\<rparr>"
  by code_simp

text \<open>
  C3, as amended. With every operation rounded by \<open>fl\<close>, a complete selection's
  discounted total is the rounded product of its original total and the rounded constant
  0.95, in both variants. For binary64 it differs from the decimal product
  \<open>original * 0.95\<close> by at most \<open>2 powi (- 52) * \<bar>original\<bar>\<close>, for every selection
  whose original total is zero or of a magnitude from \<open>2 powi (- 1021)\<close> up to
  \<open>2 powi 1023\<close>. In the scenario (spirit 50, four cans at 6, four ice units at 3) the
  original total is 86 and the discounted total is the double nearest to 81.7, less than
  \<open>1 / 10 ^ 14\<close> away from it; without rounding the totals are 86 and 81.7. The totals
  are functions of the selection alone, so computing them again gives the same values.
\<close>

theorem discount_up_to_rounding:
  "(isComplete_A s \<longrightarrow>
      discounted (calculateTotal_fl_A fl lc s) =
        fl (original (calculateTotal_fl_A fl lc s) * fl (95 / 100))) \<and>
   (isComplete_B t \<longrightarrow>
      discounted (calculateTotal_fl_B fl t) =
        fl (original (calculateTotal_fl_B fl t) * fl (95 / 100))) \<and>
   (original (calculateTotal_fl_A fl64 lc s) = 0 \<or>
    2 powi (- 1021) \<le> \<bar>original (calculateTotal_fl_A fl64 lc s)\<bar> \<and>
    \<bar>original (calculateTotal_fl_A fl64 lc s)\<bar> < 2 powi 1023 \<longrightarrow>
      \<bar>discounted (calculateTotal_fl_A fl64 lc s) -
         original (calculateTotal_fl_A fl64 lc s) * (95 / 100)\<bar>
        \<le> 2 powi (- 52) * \<bar>original (calculateTotal_fl_A fl64 lc s)\<bar>) \<and>
   (original (calculateTotal_fl_B fl64 t) = 0 \<or>
    2 powi (- 1021) \<le> \<bar>original (calculateTotal_fl_B fl64 t)\<bar> \<and>
    \<bar>original (calculateTotal_fl_B fl64 t)\<bar> < 2 powi 1023 \<longrightarrow>
      \<bar>discounted (calculateTotal_fl_B fl64 t) -
         original (calculateTotal_fl_B fl64 t) * (95 / 100)\<bar>
        \<le> 2 powi (- 52) * \<bar>original (calculateTotal_fl_B fl64 t)\<bar>) \<and>
   (selectedDestilado_B t = Some d \<and> salePrice d = 50 \<and>
    selectedEnergetico_B t = Some e \<and> salePrice e = 6 \<and> energeticoOption_B t = Opt_4cans \<and>
    selectedGelos t = [Some g1, Some g2, Some g3, Some g4] \<and>
    salePrice g1 = 3 \<and> salePrice g2 = 3 \<and> salePrice g3 = 3 \<and> salePrice g4 = 3 \<longrightarrow>
      calculateTotal_fl_B fl64 t = \<lparr>original = 86, discounted = fl64 (817 / 10)\<rparr> \<and>
      \<bar>fl64 (817 / 10) - 817 / 10\<bar> < 1 / 10 ^ 14 \<and>
      calculateTotal_B t = \<lparr>original = 86, discounted = 817 / 10\<rparr>)"
proof (intro conjI impI)
  assume "isComplete_A s"
  then show "discounted (calculateTotal_fl_A fl lc s) =
      fl (original (calculateTotal_fl_A fl lc s) * fl (95 / 100))"
    by (rule discounted_fl_A)
next
  assume "isComplete_B t"
  then show "discounted (calculateTotal_fl_B fl t) =
      fl (original (calculateTotal_fl_B fl t) * fl (95 / 100))"
    by (rule discounted_fl_B)
next
  assume "original (calculateTotal_fl_A fl64 lc s) = 0 \<or>
    2 powi (- 1021) \<le> \<bar>original (calculateTotal_fl_A fl64 lc s)\<bar> \<and>
    \<bar>original (calculateTotal_fl_A fl64 lc s)\<bar> < 2 powi 1023"
  then have "original (calculateTotal_fl_A fl64 lc s) = 0 \<or>
      2 powi (- 1021) \<le> \<bar>original (calculateTotal_fl_A fl64 lc s)\<bar>"
    by auto
  from fl64_discount_error[OF this]
  show "\<bar>discounted (calculateTotal_fl_A fl64 lc s) -
         original (calculateTotal_fl_A fl64 lc s) * (95 / 100)\<bar>
        \<le> 2 powi (- 52) * \<bar>original (calculateTotal_fl_A fl64 lc s)\<bar>"
    by (simp only: discounted_fl64_A[symmetric])
next
  assume "original (calculateTotal_fl_B fl64 t) = 0 \<or>
    2 powi (- 1021) \<le> \<bar>original (calculateTotal_fl_B fl64 t)\<bar> \<and>
    \<bar>original (calculateTotal_fl_B fl64 t)\<bar> < 2 powi 1023"
  then have "original (calculateTotal_fl_B fl64 t) = 0 \<or>
      2 powi (- 1021) \<le> \<bar>original (calculateTotal_fl_B fl64 t)\<bar>"
    by auto
  from fl64_discount_error[OF this]
  show "\<bar>discounted (calculateTotal_fl_B fl64 t) -
         original (calculateTotal_fl_B fl64 t) * (95 / 100)\<bar>
        \<le> 2 powi (- 52) * \<bar>original (calculateTotal_fl_B fl64 t)\<bar>"
    by (simp only: discounted_fl64_B[symmetric])
next
  assume h: "selectedDestilado_B t = Some d \<and> salePrice d = 50 \<and>
    selectedEnergetico_B t = Some e \<and> salePrice e = 6 \<and> energeticoOption_B t = Opt_4cans \<and>
    selectedGelos t = [Some g1, Some g2, Some g3, Some g4] \<and>
    salePrice g1 = 3 \<and> salePrice g2 = 3 \<and> salePrice g3 = 3 \<and> salePrice g4 = 3"
  then have v: "validGelos t = [g1, g2, g3, g4]"
    by (simp add: validGelos_def)
  from h v show "calculateTotal_fl_B fl64 t = \<lparr>original = 86, discounted = fl64 (817 / 10)\<rparr>"
    using fl64_scenario
    by (simp add: calculateTotal_fl_B_def energeticoQuantity_B_def ICE_COUNT_def CAN_COUNT_def)
  from fl64_scenario show "\<bar>fl64 (817 / 10) - 817 / 10\<bar> < 1 / 10 ^ 14"
    by (elim conjE)
  from h v show "calculateTotal_B t = \<lparr>original = 86, discounted = 817 / 10\<rparr>"
    by (simp add: calculateTotal_B_def energeticoQuantity_B_def ICE_COUNT_def CAN_COUNT_def)
qed

text \<open>
  The complete selection of the sample catalog is the scenario: its original total, 86,
  is in range, and its discounted total is the double nearest to 81.7.
\<close>

theorem discount_up_to_rounding_witness:
  "isComplete_A ex_complete_A \<and> isComplete_B ex_complete_B \<and>
   original (calculateTotal_fl_A fl64 asciiLower ex_complete_A) = 90 \<and>
   discounted (calculateTotal_fl_A fl64 asciiLower ex_complete_A) = 171 / 2 \<and>
   calculateTotal_fl_B fl64 ex_complete_B = \<lparr>original = 86, discounted = fl64 (817 / 10)\<rparr> \<and>
   \<bar>discounted (calculateTotal_fl_B fl64 ex_complete_B) - 86 * (95 / 100)\<bar> \<le> 2 powi (- 52) * 86 \<and>
   calculateTotal_B ex_complete_B = \<lparr>original = 86, discounted = 817 / 10\<rparr>"
proof -
  have complete: "isComplete_A ex_complete_A" "isComplete_B ex_complete_B"
    by code_simp+
  have a: "original (calculateTotal_fl_A fl64 asciiLower ex_complete_A) = 90"
    "fl64 (90 * fl64 (95 / 100)) = 171 / 2"
    by code_simp+
  have scenario: "selectedDestilado_B ex_complete_B = Some ex_gin \<and> salePrice ex_gin = 50 \<and>
      selectedEnergetico_B ex_complete_B = Some ex_redbull \<and> salePrice ex_redbull = 6 \<and>
      energeticoOption_B ex_complete_B = Opt_4cans \<and>
      selectedGelos ex_complete_B =
        [Some ex_gelo_coco, Some ex_gelo_maca, Some ex_gelo_melancia, Some ex_gelo_maracuja] \<and>
      salePrice ex_gelo_coco = 3 \<and> salePrice ex_gelo_maca = 3 \<and>
      salePrice ex_gelo_melancia = 3 \<and> salePrice ex_gelo_maracuja = 3"
    by code_simp
  have range: "(2::rat) powi (- 1021) \<le> \<bar>86\<bar> \<and> \<bar>86::rat\<bar> < 2 powi 1023"
    by code_simp
  note t = discount_up_to_rounding[where s = ex_complete_A and t = ex_complete_B
      and fl = fl64 and lc = asciiLower and d = ex_gin and e = ex_redbull
      and ?g1.0 = ex_gelo_coco and ?g2.0 = ex_gelo_maca and ?g3.0 = ex_gelo_melancia
      and ?g4.0 = ex_gelo_maracuja]
  from t complete a have da: "discounted (calculateTotal_fl_A fl64 asciiLower ex_complete_A) = 171 / 2"
    by simp
  from t scenario
  have b: "calculateTotal_fl_B fl64 ex_complete_B = \<lparr>original = 86, discounted = fl64 (817 / 10)\<rparr>"
    "calculateTotal_B ex_complete_B = \<lparr>original = 86, discounted = 817 / 10\<rparr>"
    by simp_all
  then have o: "original (calculateTotal_fl_B fl64 ex_complete_B) = 86" by simp
  from t range o
  have tol: "\<bar>discounted (calculateTotal_fl_B fl64 ex_complete_B) - 86 * (95 / 100)\<bar>
      \<le> 2 powi (- 52) * 86"
    by simp
  from complete a(1) da b tol show ?thesis by simp
qed

text \<open>
  C3 as stated fails: the discounted total need not equal \<open>original * 0.95\<close>. With the
  gin at 50, one 2L bottle at 12 and one bag of ice at 10 the original total is 72, and
  the discounted total is 68.39999999999999, which is neither the decimal 68.4 nor the
  double nearest to it.
\<close>

theorem discounted_72_is_not_68_40:
  "isComplete_A ex_bottle_A \<and>
   original (calculateTotal_fl_A fl64 asciiLower ex_bottle_A) = 72 \<and>
   discounted (calculateTotal_fl_A fl64 asciiLower ex_bottle_A) =
     4813222101752217 / 70368744177664 \<and>
   discounted (calculateTotal_fl_A fl64 asciiLower ex_bottle_A) \<noteq> 72 * (95 / 100) \<and>
   discounted (calculateTotal_fl_A fl64 asciiLower ex_bottle_A) \<noteq> fl64 (72 * (95 / 100))"
  by code_simp

section \<open>Candidate lists\<close>

text \<open>
  C5. A product is a spirit candidate exactly when it is in the catalog, combo-eligible,
  active, has positive stock and its category passes the variant's rule. Variant A: some
  category of the snapshot has the product's category identifier and a lower-cased name
  that contains one of \<open>destiladoKeywords\<close>. Variant B: a category is chosen (the
  identifier is set and not the empty string), it names a category of the snapshot, and
  it is the product's category identifier. The chosen category comes from a category
  button, and the buttons are the categories whose lower-cased name equals a lower-cased
  entry of \<open>COMBO_CATEGORIES\<close>.
\<close>

theorem spirit_candidates:
  "(p \<in> set (destilados lc categories products) \<longleftrightarrow>
      p \<in> set products \<and> comboEligible p \<and> p_isActive p \<and> stock p > 0 \<and>
      (\<exists>c \<in> set categories. c_id c = categoryId p \<and>
         (\<exists>k \<in> set destiladoKeywords. str_includes (lc (c_name c)) k))) \<and>
   (p \<in> set (destiladosByCategory categories products (selectedCategory s)) \<longleftrightarrow>
      p \<in> set products \<and> comboEligible p \<and> p_isActive p \<and> stock p > 0 \<and>
      (\<exists>sel. selectedCategory s = Some sel \<and> sel \<noteq> [] \<and> sel \<in> c_id ` set categories \<and>
         categoryId p = sel)) \<and>
   (cat \<in> set (comboCategories lc categories) \<longleftrightarrow>
      cat \<in> set categories \<and> (\<exists>name \<in> set COMBO_CATEGORIES. lc (c_name cat) = lc name)) \<and>
   selectedCategory (categoryButton cat s) = Some (c_id cat)"
  by (simp only: destilados_iff destiladosByCategory_iff comboCategories_iff)
     (simp add: categoryButton_def)

text \<open>
  On the sample catalog the gin is a spirit candidate in variant A, and in variant B once
  the button of its category has been pressed; the ice is in neither list.
\<close>

theorem spirit_candidates_witness:
  "ex_gin \<in> set (destilados asciiLower ex_categories ex_products) \<and>
   ex_cat_gin \<in> set (comboCategories asciiLower ex_categories) \<and>
   ex_gin \<in> set (destiladosByCategory ex_categories ex_products
     (selectedCategory (categoryButton ex_cat_gin (sel_B ex_spirit_only_B)))) \<and>
   ex_gelo_coco \<notin> set (destilados asciiLower ex_categories ex_products) \<and>
   ex_gelo_coco \<notin> set (destiladosByCategory ex_categories ex_products
     (selectedCategory (categoryButton ex_cat_gin (sel_B ex_spirit_only_B))))"
proof -
  have gin: "ex_gin \<in> set ex_products \<and> comboEligible ex_gin \<and> p_isActive ex_gin \<and>
      stock ex_gin > 0"
    by code_simp
  have catA: "\<exists>c \<in> set ex_categories. c_id c = categoryId ex_gin \<and>
      (\<exists>k \<in> set destiladoKeywords. str_includes (asciiLower (c_name c)) k)"
    by code_simp
  have catB: "ex_cat_gin \<in> set ex_categories \<and>
      (\<exists>name \<in> set COMBO_CATEGORIES. asciiLower (c_name ex_cat_gin) = asciiLower name)"
    by code_simp
  have ids: "c_id ex_cat_gin = categoryId ex_gin" "categoryId ex_gin \<noteq> []"
    "categoryId ex_gin \<in> c_id ` set ex_categories"
    by code_simp+
  have ice: "categoryId ex_gelo_coco \<noteq> c_id ex_cat_gin \<and>
      \<not> (\<exists>c \<in> set ex_categories. c_id c = categoryId ex_gelo_coco \<and>
         (\<exists>k \<in> set destiladoKeywords. str_includes (asciiLower (c_name c)) k))"
    by code_simp
  from spirit_candidates[where p = ex_gin and lc = asciiLower and categories = ex_categories
      and products = ex_products and cat = ex_cat_gin
      and s = "categoryButton ex_cat_gin (sel_B ex_spirit_only_B)"]
    gin catA catB ids
  have yes: "ex_gin \<in> set (destilados asciiLower ex_categories ex_products)"
    "ex_cat_gin \<in> set (comboCategories asciiLower ex_categories)"
    "ex_gin \<in> set (destiladosByCategory ex_categories ex_products
       (selectedCategory (categoryButton ex_cat_gin (sel_B ex_spirit_only_B))))"
    by (simp_all add: categoryButton_def)
  from spirit_candidates[where p = ex_gelo_coco and lc = asciiLower
      and categories = ex_categories and products = ex_products and cat = ex_cat_gin
      and s = "categoryButton ex_cat_gin (sel_B ex_spirit_only_B)"]
    ice
  have no: "ex_gelo_coco \<notin> set (destilados asciiLower ex_categories ex_products)"
    "ex_gelo_coco \<notin> set (destiladosByCategory ex_categories ex_products
       (selectedCategory (categoryButton ex_cat_gin (sel_B ex_spirit_only_B))))"
    by (simp_all add: categoryButton_def)
  from yes no show ?thesis by simp
qed

text \<open>
  C6. A product whose lower-cased name contains an energy-drink keyword and \<open>2l\<close> is in
  neither can list; one whose name contains a keyword and not \<open>2l\<close> is not in the
  large-bottle list; and in both variants the large-bottle list and the can list have no
  product in common.
\<close>

theorem energetico_lists_disjoint:
  "(isEnergetico lc (p_name p) \<and> str_includes (lc (p_name p)) ''2l'' \<longrightarrow>
      p \<notin> set (energeticosCans_A lc products) \<and> p \<notin> set (energeticosCans_B lc products)) \<and>
   (isEnergetico lc (p_name p) \<and> \<not> str_includes (lc (p_name p)) ''2l'' \<longrightarrow>
      p \<notin> set (energeticos2L lc products)) \<and>
   set (energeticos2L lc products) \<inter> set (energeticosCans_A lc products) = {} \<and>
   set (energeticos2L lc products) \<inter> set (energeticosCans_B lc products) = {}"
  by (auto simp: energeticos2L_def energeticosCans_A_def energeticosCans_B_def)

theorem energetico_lists_disjoint_witness:
  "isEnergetico asciiLower (p_name ex_fusion2L) \<and>
   str_includes (asciiLower (p_name ex_fusion2L)) ''2l'' \<and>
   ex_fusion2L \<in> set (energeticos2L asciiLower ex_products) \<and>
   ex_fusion2L \<notin> set (energeticosCans_A asciiLower ex_products) \<and>
   ex_fusion2L \<notin> set (energeticosCans_B asciiLower ex_products) \<and>
   isEnergetico asciiLower (p_name ex_redbull) \<and>
   \<not> str_includes (asciiLower (p_name ex_redbull)) ''2l'' \<and>
   ex_redbull \<in> set (energeticosCans_A asciiLower ex_products) \<and>
   ex_redbull \<in> set (energeticosCans_B asciiLower ex_products) \<and>
   ex_redbull \<notin> set (energeticos2L asciiLower ex_products)"
proof -
  have bottle: "isEnergetico asciiLower (p_name ex_fusion2L) \<and>
      str_includes (asciiLower (p_name ex_fusion2L)) ''2l''"
    by code_simp
  have cans: "isEnergetico asciiLower (p_name ex_redbull) \<and>
      \<not> str_includes (asciiLower (p_name ex_redbull)) ''2l''"
    by code_simp
  have listed: "ex_fusion2L \<in> set (energeticos2L asciiLower ex_products)"
    "ex_redbull \<in> set (energeticosCans_A asciiLower ex_products)"
    "ex_redbull \<in> set (energeticosCans_B asciiLower ex_products)"
    by code_simp+
  from energetico_lists_disjoint[of asciiLower ex_fusion2L ex_products] bottle
  have b: "ex_fusion2L \<notin> set (energeticosCans_A asciiLower ex_products)"
    "ex_fusion2L \<notin> set (energeticosCans_B asciiLower ex_products)"
    by simp_all
  from energetico_lists_disjoint[of asciiLower ex_redbull ex_products] cans
  have c: "ex_redbull \<notin> set (energeticos2L asciiLower ex_products)"
    by simp
  from bottle cans listed b c show ?thesis by simp
qed

text \<open>
  C7, as amended. \<open>getGeloQuantity\<close> is 1 for a large ice bag and 5 for any other ice
  product; with no ice selected it is 5.
\<close>

theorem getGeloQuantity_bag_one_else_five:
  "getGeloQuantity lc None = 5 \<and>
   getGeloQuantity lc (Some g) = (if isLargeIceBag lc (p_name g) then 1 else 5)"
  by (simp add: getGeloQuantity_def)

theorem getGeloQuantity_bag_one_else_five_witness:
  "isLargeIceBag asciiLower (p_name ex_gelo_saco) \<and>
   getGeloQuantity asciiLower (Some ex_gelo_saco) = 1 \<and>
   \<not> isLargeIceBag asciiLower (p_name ex_gelo_maca) \<and>
   getGeloQuantity asciiLower (Some ex_gelo_maca) = 5"
proof -
  have bag: "isLargeIceBag asciiLower (p_name ex_gelo_saco)"
    and unit: "\<not> isLargeIceBag asciiLower (p_name ex_gelo_maca)"
    by code_simp+
  from getGeloQuantity_bag_one_else_five[of asciiLower ex_gelo_saco]
    getGeloQuantity_bag_one_else_five[of asciiLower ex_gelo_maca] bag unit
  show ?thesis by simp
qed

text \<open>
  C7 as stated fails: the coconut ice is a standard unit and resolves to 5, not 1; the
  5 kg bag is a large ice bag and resolves to 1, not to a larger quantity.
\<close>

theorem standard_ice_five_bag_one:
  "\<not> isLargeIceBag asciiLower (p_name ex_gelo_coco) \<and>
   getGeloQuantity asciiLower (Some ex_gelo_coco) \<noteq> 1 \<and>
   isLargeIceBag asciiLower (p_name ex_gelo_saco) \<and>
   \<not> getGeloQuantity asciiLower (Some ex_gelo_saco) > 1"
  by code_simp

text \<open>
  C8, as amended. Variant A: a product is an ice candidate exactly when it is in the
  catalog, combo-eligible, active, its lower-cased name contains \<open>gelo\<close>, and its stock
  is at least 1 for a large ice bag and at least 5 otherwise. Variant B: exactly when it
  is in the catalog, combo-eligible, active, has stock at least 1, its lower-cased name
  contains \<open>gelo\<close> and none of \<open>kg\<close>, \<open>saco\<close>, \<open>triturado\<close>, \<open>premium\<close>; and
  every product a slot offers is such a candidate.
\<close>

theorem ice_candidates:
  "(p \<in> set (gelos lc products) \<longleftrightarrow>
      p \<in> set products \<and> comboEligible p \<and> p_isActive p \<and>
      str_includes (lc (p_name p)) ''gelo'' \<and>
      (if isLargeIceBag lc (p_name p) then stock p \<ge> 1 else stock p \<ge> 5)) \<and>
   (p \<in> set (gelosAvailable lc products) \<longleftrightarrow>
      p \<in> set products \<and> comboEligible p \<and> p_isActive p \<and> stock p \<ge> 1 \<and>
      str_includes (lc (p_name p)) ''gelo'' \<and>
      \<not> str_includes (lc (p_name p)) ''kg'' \<and>
      \<not> str_includes (lc (p_name p)) ''saco'' \<and>
      \<not> str_includes (lc (p_name p)) ''triturado'' \<and>
      \<not> str_includes (lc (p_name p)) ''premium'') \<and>
   (p \<in> set (getAvailableGelosForSlot lc products gs slotIndex) \<longrightarrow>
      p \<in> set (gelosAvailable lc products))"
  by (simp add: gelos_def gelosAvailable_def getAvailableGelosForSlot_def)

theorem ice_candidates_witness:
  "ex_gelo_saco \<in> set (gelos asciiLower ex_products) \<and>
   ex_gelo_coco \<notin> set (gelos asciiLower ex_products) \<and>
   ex_gelo_maca \<in> set (getAvailableGelosForSlot asciiLower ex_products
     [Some ex_gelo_coco, None, None, None] 1) \<and>
   ex_gelo_maca \<in> set (gelosAvailable asciiLower ex_products) \<and>
   \<not> str_includes (asciiLower (p_name ex_gelo_maca)) ''triturado'' \<and>
   \<not> str_includes (asciiLower (p_name ex_gelo_maca)) ''premium''"
proof -
  have bag: "ex_gelo_saco \<in> set ex_products \<and> comboEligible ex_gelo_saco \<and>
      p_isActive ex_gelo_saco \<and> str_includes (asciiLower (p_name ex_gelo_saco)) ''gelo'' \<and>
      isLargeIceBag asciiLower (p_name ex_gelo_saco) \<and> stock ex_gelo_saco \<ge> 1"
    by code_simp
  have coco: "\<not> isLargeIceBag asciiLower (p_name ex_gelo_coco) \<and> \<not> stock ex_gelo_coco \<ge> 5"
    by code_simp
  have slot: "ex_gelo_maca \<in> set (getAvailableGelosForSlot asciiLower ex_products
      [Some ex_gelo_coco, None, None, None] 1)"
    by code_simp
  from ice_candidates[of ex_gelo_saco asciiLower ex_products] bag
  have a: "ex_gelo_saco \<in> set (gelos asciiLower ex_products)"
    by simp
  from ice_candidates[of ex_gelo_coco asciiLower ex_products] coco
  have b: "ex_gelo_coco \<notin> set (gelos asciiLower ex_products)"
    by simp
  note maca = ice_candidates[where p = ex_gelo_maca and lc = asciiLower
      and products = ex_products and gs = "[Some ex_gelo_coco, None, None, None]"
      and slotIndex = 1]
  from maca slot have offered: "ex_gelo_maca \<in> set (gelosAvailable asciiLower ex_products)"
    by (elim conjE) simp
  with maca have c: "\<not> str_includes (asciiLower (p_name ex_gelo_maca)) ''triturado''"
    "\<not> str_includes (asciiLower (p_name ex_gelo_maca)) ''premium''"
    by (elim conjE, simp)+
  from a b c offered slot show ?thesis by simp
qed

text \<open>
  C8 as stated fails in variant B: the coconut ice is a standard unit with stock 1, less
  than the slot count 4, and is a candidate; the 5 kg bag is combo-eligible, active,
  named with \<open>gelo\<close>, a large ice bag with stock at least 1, and is not a candidate.
\<close>

theorem slot_picker_stock_gate_is_one:
  "\<not> isLargeIceBag asciiLower (p_name ex_gelo_coco) \<and>
   stock ex_gelo_coco < int ICE_COUNT \<and>
   ex_gelo_coco \<in> set (gelosAvailable asciiLower ex_products) \<and>
   comboEligible ex_gelo_saco \<and> p_isActive ex_gelo_saco \<and>
   str_includes (asciiLower (p_name ex_gelo_saco)) ''gelo'' \<and>
   isLargeIceBag asciiLower (p_name ex_gelo_saco) \<and> stock ex_gelo_saco \<ge> 1 \<and>
   ex_gelo_saco \<notin> set (gelosAvailable asciiLower ex_products)"
  by code_simp

section \<open>Confirming a combo\<close>

text \<open>
  C9. When the selection is incomplete, \<open>handleAddCombo\<close> hands nothing to the cart,
  leaves the selection as it was, does not close the dialog, and shows exactly one more
  toast, the destructive rejection. This holds in both variants.
\<close>

theorem incomplete_combo_rejected:
  "(\<not> isComplete_A (sel_A m) \<longrightarrow>
      addCombo_A (handleAddCombo_A lc now m) = addCombo_A m \<and>
      sel_A (handleAddCombo_A lc now m) = sel_A m \<and>
      onOpenChange_A (handleAddCombo_A lc now m) = onOpenChange_A m \<and>
      toast_A (handleAddCombo_A lc now m) = toast_A m @ [rejection_A] \<and>
      destructive rejection_A) \<and>
   (\<not> isComplete_B (sel_B n) \<longrightarrow>
      addCombo_B (handleAddCombo_B now n) = addCombo_B n \<and>
      sel_B (handleAddCombo_B now n) = sel_B n \<and>
      onOpenChange_B (handleAddCombo_B now n) = onOpenChange_B n \<and>
      toast_B (handleAddCombo_B now n) = toast_B n @ [rejection_B] \<and>
      destructive rejection_B)"
proof (intro conjI impI)
  assume "\<not> isComplete_A (sel_A m)"
  then have "handleAddCombo_A lc now m = m\<lparr>toast_A := toast_A m @ [rejection_A]\<rparr>"
    by (auto simp: isComplete_A_def handleAddCombo_A_def Let_def split: option.splits)
  then show "addCombo_A (handleAddCombo_A lc now m) = addCombo_A m"
    "sel_A (handleAddCombo_A lc now m) = sel_A m"
    "onOpenChange_A (handleAddCombo_A lc now m) = onOpenChange_A m"
    "toast_A (handleAddCombo_A lc now m) = toast_A m @ [rejection_A]"
    by simp_all
next
  assume "\<not> isComplete_B (sel_B n)"
  then have "handleAddCombo_B now n = n\<lparr>toast_B := toast_B n @ [rejection_B]\<rparr>"
    by (auto simp: isComplete_B_def handleAddCombo_B_def Let_def validGelos_length
        split: option.splits)
  then show "addCombo_B (handleAddCombo_B now n) = addCombo_B n"
    "sel_B (handleAddCombo_B now n) = sel_B n"
    "onOpenChange_B (handleAddCombo_B now n) = onOpenChange_B n"
    "toast_B (handleAddCombo_B now n) = toast_B n @ [rejection_B]"
    by simp_all
next
  show "destructive rejection_A" by (simp add: rejection_A_def)
next
  show "destructive rejection_B" by (simp add: rejection_B_def)
qed

text \<open>With the spirit chosen and neither energy drink nor ice, confirming is rejected.\<close>

theorem incomplete_combo_rejected_witness:
  "\<not> isComplete_A (sel_A ex_spirit_only_A) \<and>
   addCombo_A (handleAddCombo_A asciiLower 1700000000000 ex_spirit_only_A) = [] \<and>
   sel_A (handleAddCombo_A asciiLower 1700000000000 ex_spirit_only_A) = sel_A ex_spirit_only_A \<and>
   toast_A (handleAddCombo_A asciiLower 1700000000000 ex_spirit_only_A) = [rejection_A] \<and>
   \<not> isComplete_B (sel_B ex_spirit_only_B) \<and>
   addCombo_B (handleAddCombo_B 1700000000000 ex_spirit_only_B) = [] \<and>
   sel_B (handleAddCombo_B 1700000000000 ex_spirit_only_B) = sel_B ex_spirit_only_B \<and>
   toast_B (handleAddCombo_B 1700000000000 ex_spirit_only_B) = [rejection_B]"
proof -
  have inc: "\<not> isComplete_A (sel_A ex_spirit_only_A)" "\<not> isComplete_B (sel_B ex_spirit_only_B)"
    by code_simp+
  have empty: "addCombo_A ex_spirit_only_A = []" "toast_A ex_spirit_only_A = []"
    "addCombo_B ex_spirit_only_B = []" "toast_B ex_spirit_only_B = []"
    by (simp_all add: ex_spirit_only_A_def ex_spirit_only_B_def)
  from incomplete_combo_rejected[where m = ex_spirit_only_A and n = ex_spirit_only_B
      and lc = asciiLower and now = 1700000000000] inc empty
  show ?thesis by simp
qed

section \<open>Special drinks\<close>

text \<open>
  C10. A prepared product is always handed to the cart's \<open>addItem\<close>, with the
  added-to-cart toast, whatever its stock and the quantity already in the cart. A product
  that is not prepared is rejected, with the out-of-stock toast and the cart lines
  untouched, exactly when its stock is at most 0 or the quantity in the cart has reached
  its stock; otherwise it is handed to \<open>addItem\<close>.
\<close>

theorem prepared_always_added_others_stock_checked:
  "(isPrepared p \<longrightarrow>
      handleAddToCart addItem p st =
        st\<lparr>items := addItem p (items st), toast_D := toast_D st @ [itemAdded p]\<rparr>) \<and>
   (\<not> isPrepared p \<longrightarrow>
      (handleAddToCart addItem p st = st\<lparr>toast_D := toast_D st @ [outOfStock p]\<rparr>
         \<longleftrightarrow> stock p \<le> 0 \<or> currentQty (items st) p \<ge> stock p) \<and>
      (handleAddToCart addItem p st =
         st\<lparr>items := addItem p (items st), toast_D := toast_D st @ [itemAdded p]\<rparr>
         \<longleftrightarrow> \<not> (stock p \<le> 0 \<or> currentQty (items st) p \<ge> stock p)))"
proof -
  have ne: "st\<lparr>items := its, toast_D := toast_D st @ [itemAdded p]\<rparr> \<noteq>
      st\<lparr>toast_D := toast_D st @ [outOfStock p]\<rparr>" for its
  proof
    assume "st\<lparr>items := its, toast_D := toast_D st @ [itemAdded p]\<rparr> =
      st\<lparr>toast_D := toast_D st @ [outOfStock p]\<rparr>"
    then have "toast_D (st\<lparr>items := its, toast_D := toast_D st @ [itemAdded p]\<rparr>) =
      toast_D (st\<lparr>toast_D := toast_D st @ [outOfStock p]\<rparr>)"
      by (rule arg_cong)
    then have "itemAdded p = outOfStock p" by simp
    with toasts_differ show False by metis
  qed
  show ?thesis
    using ne ne[symmetric] by (simp add: handleAddToCart_def)
qed

text \<open>
  The caipirinha is prepared and has stock 0: it is added. The coconut ice is not
  prepared, has stock 1 and is in the cart once: it is rejected. The apple ice has stock
  8 and is not in the cart: it is added.
\<close>

theorem prepared_always_added_others_stock_checked_witness:
  "isPrepared ex_caipirinha \<and> stock ex_caipirinha \<le> 0 \<and>
   handleAddToCart ex_addItem ex_caipirinha ex_cart =
     ex_cart\<lparr>items := ex_addItem ex_caipirinha (items ex_cart),
             toast_D := toast_D ex_cart @ [itemAdded ex_caipirinha]\<rparr> \<and>
   \<not> isPrepared ex_gelo_coco \<and> currentQty (items ex_cart) ex_gelo_coco \<ge> stock ex_gelo_coco \<and>
   handleAddToCart ex_addItem ex_gelo_coco ex_cart =
     ex_cart\<lparr>toast_D := toast_D ex_cart @ [outOfStock ex_gelo_coco]\<rparr> \<and>
   \<not> isPrepared ex_gelo_maca \<and>
   \<not> (stock ex_gelo_maca \<le> 0 \<or> currentQty (items ex_cart) ex_gelo_maca \<ge> stock ex_gelo_maca) \<and>
   handleAddToCart ex_addItem ex_gelo_maca ex_cart =
     ex_cart\<lparr>items := ex_addItem ex_gelo_maca (items ex_cart),
             toast_D := toast_D ex_cart @ [itemAdded ex_gelo_maca]\<rparr>"
proof -
  have prep: "isPrepared ex_caipirinha \<and> stock ex_caipirinha \<le> 0"
    by code_simp
  have coco: "\<not> isPrepared ex_gelo_coco \<and>
      currentQty (items ex_cart) ex_gelo_coco \<ge> stock ex_gelo_coco"
    by code_simp
  have maca: "\<not> isPrepared ex_gelo_maca \<and>
      \<not> (stock ex_gelo_maca \<le> 0 \<or> currentQty (items ex_cart) ex_gelo_maca \<ge> stock ex_gelo_maca)"
    by code_simp
  from prepared_always_added_others_stock_checked[where p = ex_caipirinha
      and addItem = ex_addItem and st = ex_cart] prep
  have a: "handleAddToCart ex_addItem ex_caipirinha ex_cart =
     ex_cart\<lparr>items := ex_addItem ex_caipirinha (items ex_cart),
             toast_D := toast_D ex_cart @ [itemAdded ex_caipirinha]\<rparr>"
    by simp
  from prepared_always_added_others_stock_checked[where p = ex_gelo_coco
      and addItem = ex_addItem and st = ex_cart] coco
  have b: "handleAddToCart ex_addItem ex_gelo_coco ex_cart =
     ex_cart\<lparr>toast_D := toast_D ex_cart @ [outOfStock ex_gelo_coco]\<rparr>"
    by simp
  from prepared_always_added_others_stock_checked[where p = ex_gelo_maca
      and addItem = ex_addItem and st = ex_cart] maca
  have c: "handleAddToCart ex_addItem ex_gelo_maca ex_cart =
     ex_cart\<lparr>items := ex_addItem ex_gelo_maca (items ex_cart),
             toast_D := toast_D ex_cart @ [itemAdded ex_gelo_maca]\<rparr>"
    by simp
  from prep coco maca a b c show ?thesis by simp
qed

end
